theory Spec2Isabelle
  imports Complex_Main "HOL-Library.AList"
begin

section \<open>The classifier service of \<^verbatim>\<open>index.js\<close>\<close>

text \<open>
  A shallow embedding of the four functions of \<^verbatim>\<open>index.js\<close>: \<^verbatim>\<open>batchPredict\<close>,
  \<^verbatim>\<open>averageByTag\<close>, \<^verbatim>\<open>getMaxLabel\<close> and the handler of \<^verbatim>\<open>POST /classify\<close>.

  Conventions of the embedding.
  \<^item> A finite JavaScript number is a \<open>real\<close>: rounding of IEEE doubles is not modelled.
    \<open>NaN\<close> is kept as a value of its own, since the code can produce it.
  \<^item> A JavaScript object created by \<^verbatim>\<open>{}\<close> is the list of its own properties in
    creation order; its prototype is \<^verbatim>\<open>Object.prototype\<close>, whose property names are
    \<open>Object_prototype_names\<close>.
  \<^item> The remote classifier and \<^verbatim>\<open>process.env\<close> are parameters of the model.
  \<^item> Everything the handler does besides answering (reads of the environment, requests
    to the classifier, the diagnostic log line) is returned as a list of events.
\<close>

subsection \<open>JavaScript values\<close>

datatype jsnumber = Num real | NaN

text \<open>
  The values a property of the object \<^verbatim>\<open>sums\<close> can be read as: \<open>Undefined\<close> (no such
  property, own or inherited), a number, \<open>Builtin\<close> (a function or object inherited from
  \<^verbatim>\<open>Object.prototype\<close>) and \<open>Text\<close>, the string that \<^verbatim>\<open>+=\<close> produces from a
  \<open>Builtin\<close> and a number (the source text of the builtin followed by the digits of the
  number: not empty, and not the text of a number).
\<close>

datatype jsval = Undefined | Number jsnumber | Text | Builtin

type_synonym 'v jsobject = "(string \<times> 'v) list"

definition Object_prototype_names :: "string list" where
  "Object_prototype_names =
     [''constructor'', ''__defineGetter__'', ''__defineSetter__'', ''hasOwnProperty'',
      ''__lookupGetter__'', ''__lookupSetter__'', ''isPrototypeOf'',
      ''propertyIsEnumerable'', ''toString'', ''valueOf'', ''__proto__'',
      ''toLocaleString'']"

text \<open>\<^verbatim>\<open>obj[key]\<close>: the own property, else the inherited one, else \<^verbatim>\<open>undefined\<close>.\<close>

definition js_get :: "jsval jsobject \<Rightarrow> string \<Rightarrow> jsval" where
  "js_get obj key =
     (case map_of obj key of
        Some v \<Rightarrow> v
      | None \<Rightarrow> if key \<in> set Object_prototype_names then Builtin else Undefined)"

text \<open>
  \<^verbatim>\<open>obj[key] = v\<close> for a primitive \<open>v\<close>: an own property is overwritten in place, a new
  one is appended; \<^verbatim>\<open>__proto__\<close> is an accessor of \<^verbatim>\<open>Object.prototype\<close> whose setter
  ignores primitives, so that assignment changes nothing.
\<close>

definition js_set :: "'v jsobject \<Rightarrow> string \<Rightarrow> 'v \<Rightarrow> 'v jsobject" where
  "js_set obj key v = (if key = ''__proto__'' then obj else AList.update key v obj)"

text \<open>\<^verbatim>\<open>!v\<close> is \<open>\<not> truthy v\<close>.\<close>

fun truthy :: "jsval \<Rightarrow> bool" where
  "truthy Undefined = False"
| "truthy (Number (Num x)) = (x \<noteq> 0)"
| "truthy (Number NaN) = False"
| "truthy Text = True"
| "truthy Builtin = True"

text \<open>\<^verbatim>\<open>v + p\<close> for a number \<open>p\<close>.\<close>

fun js_plus :: "jsval \<Rightarrow> real \<Rightarrow> jsval" where
  "js_plus Undefined p = Number NaN"
| "js_plus (Number (Num x)) p = Number (Num (x + p))"
| "js_plus (Number NaN) p = Number NaN"
| "js_plus Text p = Text"
| "js_plus Builtin p = Text"

text \<open>\<^verbatim>\<open>v / n\<close> for a positive integer \<open>n\<close>: \<open>v\<close> is converted to a number first.\<close>

fun js_div :: "jsval \<Rightarrow> nat \<Rightarrow> jsnumber" where
  "js_div (Number (Num x)) n = Num (x / real n)"
| "js_div (Number NaN) n = NaN"
| "js_div Undefined n = NaN"
| "js_div Text n = NaN"
| "js_div Builtin n = NaN"

text \<open>\<^verbatim>\<open>a >= b\<close> on numbers: false whenever \<open>NaN\<close> takes part.\<close>

fun js_ge :: "jsnumber \<Rightarrow> jsnumber \<Rightarrow> bool" where
  "js_ge (Num a) (Num b) = (a \<ge> b)"
| "js_ge _ _ = False"

subsection \<open>The order of \<^verbatim>\<open>Object.entries\<close>\<close>

text \<open>
  \<^verbatim>\<open>Object.entries\<close> lists the own properties whose names are array indices (the decimal
  numerals of \<open>0 \<dots> 2\<^sup>3\<^sup>2 - 2\<close>, without leading zeros) in ascending numeric order, and
  after them the other properties in creation order.
\<close>

definition digit_of :: "char \<Rightarrow> nat option" where
  "digit_of c =
     map_of [(CHR ''0'', 0), (CHR ''1'', 1), (CHR ''2'', 2), (CHR ''3'', 3), (CHR ''4'', 4),
             (CHR ''5'', 5), (CHR ''6'', 6), (CHR ''7'', 7), (CHR ''8'', 8), (CHR ''9'', 9)] c"

fun decimal :: "nat \<Rightarrow> string \<Rightarrow> nat option" where
  "decimal acc [] = Some acc"
| "decimal acc (c # cs) =
     (case digit_of c of None \<Rightarrow> None | Some d \<Rightarrow> decimal (10 * acc + d) cs)"

definition array_index :: "string \<Rightarrow> nat option" where
  "array_index key =
     (if key = [] \<or> (hd key = CHR ''0'' \<and> tl key \<noteq> []) then None
      else case decimal 0 key of
             None \<Rightarrow> None
           | Some n \<Rightarrow> if n \<le> 4294967294 then Some n else None)"

definition index_rank :: "string \<times> 'v \<Rightarrow> nat" where
  "index_rank e = (case array_index (fst e) of Some n \<Rightarrow> n | None \<Rightarrow> 0)"

definition Object_entries :: "'v jsobject \<Rightarrow> (string \<times> 'v) list" where
  "Object_entries obj =
     sort_key index_rank (filter (\<lambda>e. array_index (fst e) \<noteq> None) obj)
     @ filter (\<lambda>e. array_index (fst e) = None) obj"

subsection \<open>The data of the service\<close>

record prediction =
  tagName :: string
  probability :: real

datatype json =
    JNull | JBool bool | JNum real | JStr string
  | JArr "json list" | JObj "(string \<times> json) list"

record imagePrediction =
  imageUrl :: json
  predictions :: "prediction list"

subsection \<open>\<^verbatim>\<open>averageByTag\<close>\<close>

text \<open>
  The body of the inner loop:
  \<^verbatim>\<open>if (!sums[p.tagName]) sums[p.tagName] = 0; sums[p.tagName] += p.probability;\<close>
  (\<open>sums0\<close> is the object before the two statements, \<open>sums1\<close> the object between them.)
\<close>

definition add_prediction :: "prediction \<Rightarrow> jsval jsobject \<Rightarrow> jsval jsobject" where
  "add_prediction p sums0 =
     (let sums1 = (if \<not> truthy (js_get sums0 (tagName p))
                   then js_set sums0 (tagName p) (Number (Num 0)) else sums0)
      in js_set sums1 (tagName p) (js_plus (js_get sums1 (tagName p)) (probability p)))"

text \<open>The body of the outer loop, on the pair of \<^verbatim>\<open>sums\<close> and \<^verbatim>\<open>count\<close>.\<close>

definition add_image :: "imagePrediction \<Rightarrow> jsval jsobject \<times> nat \<Rightarrow> jsval jsobject \<times> nat" where
  "add_image img st = (fold add_prediction (predictions img) (fst st), snd st + 1)"

text \<open>\<^verbatim>\<open>const n = count || 1\<close>\<close>

definition divisor :: "nat \<Rightarrow> nat" where
  "divisor count = (if count = 0 then 1 else count)"

definition averageByTag :: "imagePrediction list \<Rightarrow> jsnumber jsobject" where
  "averageByTag perImage =
     (let (sums1, count) = fold add_image perImage ([], 0);
          n = divisor count
      in fold (\<lambda>(tag, sum1) averages. js_set averages tag (js_div sum1 n))
           (Object_entries sums1) [])"

subsection \<open>\<^verbatim>\<open>getMaxLabel\<close>\<close>

record maxLabel =
  label :: "string option"
  probability_of :: real

text \<open>
  The loop body: \<^verbatim>\<open>if (prob > bestProb) { bestProb = prob; bestLabel = label; }\<close>.
  \<open>bestProb\<close> starts at \<open>-1\<close> and only ever takes a value that compared greater than a
  number, so it is never \<open>NaN\<close>.
\<close>

definition better :: "string \<times> jsnumber \<Rightarrow> maxLabel \<Rightarrow> maxLabel" where
  "better e best =
     (case snd e of
        Num prob \<Rightarrow>
          if prob > probability_of best
          then \<lparr>label = Some (fst e), probability_of = prob\<rparr> else best
      | NaN \<Rightarrow> best)"

definition getMaxLabel :: "jsnumber jsobject \<Rightarrow> maxLabel" where
  "getMaxLabel probMap =
     fold better (Object_entries probMap) \<lparr>label = None, probability_of = - 1\<rparr>"

subsection \<open>\<^verbatim>\<open>batchPredict\<close>\<close>

text \<open>
  What \<^verbatim>\<open>axios.post\<close> gives back. A fulfilled request carries \<^verbatim>\<open>resp.data.predictions\<close>
  (\<open>None\<close> when the field is absent); a rejected one (network error, timeout, status
  outside 2xx) carries \<^verbatim>\<open>err.response.data\<close> (\<open>None\<close> when there is no response or no
  body) and \<^verbatim>\<open>err.message\<close>.
\<close>

record axios_response =
  resp_predictions :: "prediction list option"

record axios_error =
  response_data :: "json option"
  message :: string

text \<open>
  The remote side: for the number of the request among the requests of the handler (\<open>0\<close>
  for the first one), the endpoint, the key and the image URL, the instant at which the
  request settles and how it settles.
\<close>

type_synonym axios_post = "nat \<Rightarrow> string \<Rightarrow> string \<Rightarrow> json \<Rightarrow> nat \<times> (axios_error + axios_response)"

datatype logged = LoggedValue json | LoggedError axios_error

datatype event = EnvRead string | AxiosPost string string json | ConsoleError logged

text \<open>
  \<^verbatim>\<open>Promise.all\<close>: fulfilled with all values, in the order of the promises, when none is
  rejected; otherwise rejected with the reason of the promise that is rejected first
  (the earliest instant, and among equal instants the earliest promise of the list).
\<close>

definition rejections :: "(nat \<times> ('e + 'a)) list \<Rightarrow> (nat \<times> 'e) list" where
  "rejections ps =
     List.map_filter (\<lambda>(t, r). case r of Inl e \<Rightarrow> Some (t, e) | Inr v \<Rightarrow> None) ps"

definition fulfilments :: "(nat \<times> ('e + 'a)) list \<Rightarrow> 'a list" where
  "fulfilments ps =
     List.map_filter (\<lambda>(t, r). case r of Inl e \<Rightarrow> None | Inr v \<Rightarrow> Some v) ps"

definition Promise_all :: "(nat \<times> ('e + 'a)) list \<Rightarrow> 'e + 'a list" where
  "Promise_all ps =
     (case rejections ps of
        [] \<Rightarrow> Inr (fulfilments ps)
      | r # rs \<Rightarrow> Inl (snd (arg_min_list fst (r # rs))))"

text \<open>The callback of \<^verbatim>\<open>imageUrls.map\<close>, on the number of the request and the URL.\<close>

definition predict_one ::
  "axios_post \<Rightarrow> string \<Rightarrow> string \<Rightarrow> nat \<times> json \<Rightarrow> nat \<times> (axios_error + imagePrediction)" where
  "predict_one axios endpointUrl predictionKey =
     (\<lambda>(n, url).
        case axios n endpointUrl predictionKey url of
          (t, Inl err) \<Rightarrow> (t, Inl err)
        | (t, Inr resp) \<Rightarrow>
            (t, Inr \<lparr>imageUrl = url,
                     predictions =
                       map (\<lambda>p. \<lparr>tagName = tagName p, probability = probability p\<rparr>)
                         (case resp_predictions resp of None \<Rightarrow> [] | Some ps \<Rightarrow> ps)\<rparr>))"

text \<open>
  The result of the call, and the requests it sent (all of them, whatever the result).
  \<open>first\<close> is the number of requests the handler has sent before the call.
\<close>

definition batchPredict ::
  "axios_post \<Rightarrow> nat \<Rightarrow> json list \<Rightarrow> string \<Rightarrow> string
     \<Rightarrow> (axios_error + imagePrediction list) \<times> event list" where
  "batchPredict axios first imageUrls endpointUrl predictionKey =
     (Promise_all
        (map (predict_one axios endpointUrl predictionKey) (enumerate first imageUrls)),
      map (AxiosPost endpointUrl predictionKey) imageUrls)"

subsection \<open>The handler of \<^verbatim>\<open>POST /classify\<close>\<close>

text \<open>
  \<^verbatim>\<open>req.body\<close> is what \<^verbatim>\<open>express.json()\<close> parsed from the request: a JSON object or a
  JSON array (its strict mode accepts nothing else).
\<close>

datatype reqbody = BodyObject "(string \<times> json) list" | BodyArray "json list"

text \<open>\<^verbatim>\<open>req.body.imageUrls\<close>; \<open>None\<close> is \<^verbatim>\<open>undefined\<close>.\<close>

fun body_imageUrls :: "reqbody \<Rightarrow> json option" where
  "body_imageUrls (BodyObject props) = map_of props ''imageUrls''"
| "body_imageUrls (BodyArray items) = None"

record stage1_report =
  s1_predictor :: string
  s1_averages :: "jsnumber jsobject"
  s1_perImage :: "imagePrediction list"
  isModel :: bool
  modelProbability :: jsnumber
  notModelProbability :: jsnumber

record stage2_report =
  s2_predictor :: string
  branch :: string
  s2_averages :: "jsnumber jsobject"
  s2_perImage :: "imagePrediction list"
  finalLabel :: "string option"
  finalLabelProbability :: real
  highConfidence :: bool
  confidenceThreshold :: real

record classification =
  imageCount :: nat
  imageUrls_echo :: "json list"
  stage1 :: stage1_report
  stage2 :: stage2_report

text \<open>The body of a response: \<^verbatim>\<open>{ error, details }\<close> (details optional) or the result.\<close>

datatype response_body = ErrorBody string "json option" | ResultBody classification

type_synonym http_response = "nat \<times> response_body"

type_synonym process_env = "string \<Rightarrow> string option"

text \<open>\<^verbatim>\<open>process.env.X || d\<close> and \<^verbatim>\<open>!process.env.X\<close>: an unset or empty variable is falsy.\<close>

definition or_default :: "string option \<Rightarrow> string \<Rightarrow> string" where
  "or_default v d = (case v of None \<Rightarrow> d | Some s \<Rightarrow> if s = [] then d else s)"

definition unset :: "string option \<Rightarrow> bool" where
  "unset v = (case v of None \<Rightarrow> True | Some s \<Rightarrow> s = [])"

definition default_modelNotModelUrl :: string where
  "default_modelNotModelUrl = ''https://gesmodelsclassification-prediction.cognitiveservices.azure.com/customvision/v3.0/Prediction/35afe559-03ae-4d8c-91e9-ed001feac52e/classify/iterations/ModelNotModelPredictor/url''"

definition default_civilianHybridUrl :: string where
  "default_civilianHybridUrl = ''https://gesmodelsclassification-prediction.cognitiveservices.azure.com/customvision/v3.0/Prediction/d784e366-21a8-4231-8058-6f2ad50a72e0/classify/iterations/CivilianHybridPredictor/url''"

definition default_superCommonUrl :: string where
  "default_superCommonUrl = ''https://germanywestcentral.api.cognitive.microsoft.com/customvision/v3.0/Prediction/133f6dd8-c9e3-4a86-84d7-c1b6fdd4ef69/classify/iterations/SuperModelCommonModelPredictor/url''"

text \<open>The six reads of \<^verbatim>\<open>process.env\<close>, in the order of the source.\<close>

definition config_reads :: "event list" where
  "config_reads =
     [EnvRead ''MODEL_NOT_MODEL_URL'', EnvRead ''MODEL_NOT_MODEL_KEY'',
      EnvRead ''CIVILIAN_HYBRID_URL'', EnvRead ''CIVILIAN_HYBRID_KEY'',
      EnvRead ''SUPERMODEL_COMMON_URL'', EnvRead ''SUPERMODEL_COMMON_KEY'']"

text \<open>Truthiness of a JSON value, for \<^verbatim>\<open>||\<close>.\<close>

fun json_truthy :: "json \<Rightarrow> bool" where
  "json_truthy JNull = False"
| "json_truthy (JBool b) = b"
| "json_truthy (JNum x) = (x \<noteq> 0)"
| "json_truthy (JStr s) = (s \<noteq> [])"
| "json_truthy (JArr xs) = True"
| "json_truthy (JObj ps) = True"

text \<open>\<^verbatim>\<open>err?.response?.data || err.message\<close>, when it is truthy.\<close>

definition data_or_message :: "axios_error \<Rightarrow> json option" where
  "data_or_message err =
     (case response_data err of
        Some d \<Rightarrow> if json_truthy d then Some d
                  else if message err \<noteq> [] then Some (JStr (message err)) else None
      | None \<Rightarrow> if message err \<noteq> [] then Some (JStr (message err)) else None)"

text \<open>\<^verbatim>\<open>err?.response?.data || err.message || "Unknown error"\<close>\<close>

definition error_details :: "axios_error \<Rightarrow> json" where
  "error_details err =
     (case data_or_message err of Some v \<Rightarrow> v | None \<Rightarrow> JStr ''Unknown error'')"

text \<open>The \<^verbatim>\<open>catch\<close> block: the log line and the answer.\<close>

definition catch_block :: "axios_error \<Rightarrow> http_response \<times> event list" where
  "catch_block err =
     ((500, ErrorBody ''Internal server error'' (Some (error_details err))),
      [ConsoleError (case data_or_message err of
                       Some v \<Rightarrow> LoggedValue v | None \<Rightarrow> LoggedError err)])"

text \<open>
  The configuration, once the handler is past
  \<^verbatim>\<open>if (!modelNotModelKey || !civilianHybridKey || !superCommonKey)\<close>: the three addresses
  with their defaults and the three keys, each set and not empty.
\<close>

record config =
  modelNotModelUrl :: string
  modelNotModelKey :: string
  civilianHybridUrl :: string
  civilianHybridKey :: string
  superCommonUrl :: string
  superCommonKey :: string

definition load_config :: "process_env \<Rightarrow> config option" where
  "load_config env =
     (if unset (env ''MODEL_NOT_MODEL_KEY'') \<or> unset (env ''CIVILIAN_HYBRID_KEY'')
         \<or> unset (env ''SUPERMODEL_COMMON_KEY'')
      then None
      else Some
        \<lparr>modelNotModelUrl = or_default (env ''MODEL_NOT_MODEL_URL'') default_modelNotModelUrl,
         modelNotModelKey = or_default (env ''MODEL_NOT_MODEL_KEY'') [],
         civilianHybridUrl = or_default (env ''CIVILIAN_HYBRID_URL'') default_civilianHybridUrl,
         civilianHybridKey = or_default (env ''CIVILIAN_HYBRID_KEY'') [],
         superCommonUrl = or_default (env ''SUPERMODEL_COMMON_URL'') default_superCommonUrl,
         superCommonKey = or_default (env ''SUPERMODEL_COMMON_KEY'') []\<rparr>)"

text \<open>
  \<^verbatim>\<open>averages[name] ?? 0\<close> for a name that \<^verbatim>\<open>Object.prototype\<close> does not have (as
  \<^verbatim>\<open>"Model"\<close> and \<^verbatim>\<open>"NOT Model"\<close>): the own property, else \<open>0\<close>.
\<close>

definition average_or_zero :: "jsnumber jsobject \<Rightarrow> string \<Rightarrow> jsnumber" where
  "average_or_zero averages name =
     (case map_of averages name of Some v \<Rightarrow> v | None \<Rightarrow> Num 0)"

text \<open>The two stages: the handler from \<^verbatim>\<open>STAGE 1\<close> to the end of the \<^verbatim>\<open>try\<close> block.\<close>

definition classify_stages ::
  "config \<Rightarrow> axios_post \<Rightarrow> json list \<Rightarrow> http_response \<times> event list" where
  "classify_stages cfg axios imageUrls =
     (case batchPredict axios 0 imageUrls (modelNotModelUrl cfg) (modelNotModelKey cfg) of
        (Inl err, sent1) \<Rightarrow> (fst (catch_block err), sent1 @ snd (catch_block err))
      | (Inr stage1PerImage, sent1) \<Rightarrow>
          (let stage1Averages = averageByTag stage1PerImage;
               modelProb = average_or_zero stage1Averages ''Model'';
               notModelProb = average_or_zero stage1Averages ''NOT Model'';
               isModel = js_ge modelProb notModelProb;
               useSuperCommon = isModel;
               stage2Url = (if useSuperCommon then superCommonUrl cfg else civilianHybridUrl cfg);
               stage2Key = (if useSuperCommon then superCommonKey cfg else civilianHybridKey cfg);
               predictorName = (if useSuperCommon then ''SuperModel/Common Model Predictor''
                                else ''Civilian/Hybrid Predictor'');
               branch = (if useSuperCommon then ''SuperModelCommonModel'' else ''CivilianHybrid'')
           in case batchPredict axios (length imageUrls) imageUrls stage2Url stage2Key of
                (Inl err, sent2) \<Rightarrow>
                  (fst (catch_block err), sent1 @ sent2 @ snd (catch_block err))
              | (Inr stage2PerImage, sent2) \<Rightarrow>
                  (let stage2Averages = averageByTag stage2PerImage;
                       finalResult = getMaxLabel stage2Averages;
                       threshold = 0.95;
                       thresholdMet = (probability_of finalResult \<ge> threshold)
                   in ((200, ResultBody
                          \<lparr>imageCount = length imageUrls,
                           imageUrls_echo = imageUrls,
                           stage1 =
                             \<lparr>s1_predictor = ''Model/NOT Model Predictor'',
                              s1_averages = stage1Averages,
                              s1_perImage = stage1PerImage,
                              isModel = isModel,
                              modelProbability = modelProb,
                              notModelProbability = notModelProb\<rparr>,
                           stage2 =
                             \<lparr>s2_predictor = predictorName,
                              branch = branch,
                              s2_averages = stage2Averages,
                              s2_perImage = stage2PerImage,
                              finalLabel = label finalResult,
                              finalLabelProbability = probability_of finalResult,
                              highConfidence = thresholdMet,
                              confidenceThreshold = threshold\<rparr>\<rparr>),
                       sent1 @ sent2))))"

definition bad_request :: http_response where
  "bad_request = (400, ErrorBody ''imageUrls must be a non-empty array of URLs'' None)"

definition keys_not_set :: http_response where
  "keys_not_set =
     (500, ErrorBody ''Prediction keys not set (MODEL_NOT_MODEL_KEY / CIVILIAN_HYBRID_KEY / SUPERMODEL_COMMON_KEY)'' None)"

text \<open>
  The handler: the answer and, in order, what it did on the way
  (\<^verbatim>\<open>Array.isArray(imageUrls)\<close> holds for \<open>Some (JArr imageUrls)\<close> only).
\<close>

definition classify :: "process_env \<Rightarrow> axios_post \<Rightarrow> reqbody \<Rightarrow> http_response \<times> event list" where
  "classify env axios body =
     (case body_imageUrls body of
        Some (JArr imageUrls) \<Rightarrow>
          if imageUrls = [] then (bad_request, [])
          else (case load_config env of
                  None \<Rightarrow> (keys_not_set, config_reads)
                | Some cfg \<Rightarrow>
                    (fst (classify_stages cfg axios imageUrls),
                     config_reads @ snd (classify_stages cfg axios imageUrls)))
      | _ \<Rightarrow> (bad_request, []))"

subsection \<open>The requests of a run\<close>

text \<open>
  The requests to the classifier among the events of a run, in the order in which they
  were sent, and how request number \<open>n\<close> of the run settled.
\<close>

fun request_of :: "event \<Rightarrow> (string \<times> string \<times> json) option" where
  "request_of (AxiosPost endpointUrl predictionKey url) = Some (endpointUrl, predictionKey, url)"
| "request_of (EnvRead name) = None"
| "request_of (ConsoleError v) = None"

definition requests :: "event list \<Rightarrow> (string \<times> string \<times> json) list" where
  "requests events = List.map_filter request_of events"

definition outcome :: "axios_post \<Rightarrow> event list \<Rightarrow> nat \<Rightarrow> axios_error + axios_response" where
  "outcome axios events n =
     (case requests events ! n of (endpointUrl, predictionKey, url) \<Rightarrow>
        snd (axios n endpointUrl predictionKey url))"

subsection \<open>The average in the words of the specification\<close>

text \<open>
  The probability of an image for a label: what the image's predictions give the label,
  \<open>0\<close> when the image does not mention it. The labels of a batch, and the average of a
  label: the sum of the images' probabilities for it over the number of images.
\<close>

definition probability_for :: "string \<Rightarrow> imagePrediction \<Rightarrow> real" where
  "probability_for L img =
     sum_list (map probability (filter (\<lambda>p. tagName p = L) (predictions img)))"

definition labels_of :: "imagePrediction list \<Rightarrow> string set" where
  "labels_of perImage = (\<Union>img \<in> set perImage. tagName ` set (predictions img))"

definition spec_average :: "imagePrediction list \<Rightarrow> string \<Rightarrow> real" where
  "spec_average perImage L =
     sum_list (map (probability_for L) perImage) / real (length perImage)"

text \<open>
  A value of an averages mapping that is a number of \<open>[0, 1]\<close>, and one that is a number
  above \<open>-1\<close>, the starting value of \<^verbatim>\<open>bestProb\<close> in \<^verbatim>\<open>getMaxLabel\<close>.
\<close>

definition in_unit_interval :: "jsnumber \<Rightarrow> bool" where
  "in_unit_interval v = (case v of Num x \<Rightarrow> 0 \<le> x \<and> x \<le> 1 | NaN \<Rightarrow> False)"

definition above_sentinel :: "jsnumber \<Rightarrow> bool" where
  "above_sentinel v = (case v of Num x \<Rightarrow> - 1 < x | NaN \<Rightarrow> False)"

subsection \<open>Auxiliary notions for the proofs\<close>

text \<open>
  What the loop of \<^verbatim>\<open>averageByTag\<close> holds for a label: the number stored under it
  (\<open>0\<close> when there is none), and whether the label has no property or a finite number.
\<close>

definition sum_so_far :: "jsval jsobject \<Rightarrow> string \<Rightarrow> real" where
  "sum_so_far s L = (case map_of s L of Some (Number (Num x)) \<Rightarrow> x | _ \<Rightarrow> 0)"

definition numeric_at :: "jsval jsobject \<Rightarrow> string \<Rightarrow> bool" where
  "numeric_at s L =
     (case map_of s L of None \<Rightarrow> True | Some (Number (Num x)) \<Rightarrow> True | _ \<Rightarrow> False)"

text \<open>
  The decision of stage 1 and what the handler derives from it, as functions of the
  per-image predictions of stage 1; the body of the answer \<open>200\<close>.
\<close>

definition says_model :: "imagePrediction list \<Rightarrow> bool" where
  "says_model stage1PerImage =
     js_ge (average_or_zero (averageByTag stage1PerImage) ''Model'')
           (average_or_zero (averageByTag stage1PerImage) ''NOT Model'')"

definition stage2_url :: "config \<Rightarrow> imagePrediction list \<Rightarrow> string" where
  "stage2_url cfg stage1PerImage =
     (if says_model stage1PerImage then superCommonUrl cfg else civilianHybridUrl cfg)"

definition stage2_key :: "config \<Rightarrow> imagePrediction list \<Rightarrow> string" where
  "stage2_key cfg stage1PerImage =
     (if says_model stage1PerImage then superCommonKey cfg else civilianHybridKey cfg)"

definition result_of ::
  "json list \<Rightarrow> imagePrediction list \<Rightarrow> imagePrediction list \<Rightarrow> classification" where
  "result_of urls stage1PerImage stage2PerImage =
     \<lparr>imageCount = length urls,
      imageUrls_echo = urls,
      stage1 =
        \<lparr>s1_predictor = ''Model/NOT Model Predictor'',
         s1_averages = averageByTag stage1PerImage,
         s1_perImage = stage1PerImage,
         isModel = says_model stage1PerImage,
         modelProbability = average_or_zero (averageByTag stage1PerImage) ''Model'',
         notModelProbability = average_or_zero (averageByTag stage1PerImage) ''NOT Model''\<rparr>,
      stage2 =
        \<lparr>s2_predictor = (if says_model stage1PerImage then ''SuperModel/Common Model Predictor''
                         else ''Civilian/Hybrid Predictor''),
         branch = (if says_model stage1PerImage then ''SuperModelCommonModel''
                   else ''CivilianHybrid''),
         s2_averages = averageByTag stage2PerImage,
         s2_perImage = stage2PerImage,
         finalLabel = label (getMaxLabel (averageByTag stage2PerImage)),
         finalLabelProbability = probability_of (getMaxLabel (averageByTag stage2PerImage)),
         highConfidence = (0.95 \<le> probability_of (getMaxLabel (averageByTag stage2PerImage))),
         confidenceThreshold = 0.95\<rparr>\<rparr>"

subsection \<open>Concrete inputs\<close>

text \<open>Averages in which two labels tie for the maximum.\<close>

definition tied_averages :: "jsnumber jsobject" where
  "tied_averages = [(''Jeep'', Num 0.3), (''Tank'', Num 0.35), (''Truck'', Num 0.35)]"

text \<open>A batch of two images, the second of which does not mention \<^verbatim>\<open>NOT Model\<close>.\<close>

definition two_image_batch :: "imagePrediction list" where
  "two_image_batch =
     [\<lparr>imageUrl = JStr ''a.jpg'',
       predictions = [\<lparr>tagName = ''Model'', probability = 0.9\<rparr>,
                      \<lparr>tagName = ''NOT Model'', probability = 0.1\<rparr>]\<rparr>,
      \<lparr>imageUrl = JStr ''b.jpg'',
       predictions = [\<lparr>tagName = ''Model'', probability = 0.8\<rparr>]\<rparr>]"

text \<open>A request for two images, and an environment that sets every variable.\<close>

definition example_urls :: "json list" where
  "example_urls = [JStr ''a.jpg'', JStr ''b.jpg'']"

definition example_body :: reqbody where
  "example_body = BodyObject [(''imageUrls'', JArr [JStr ''a.jpg'', JStr ''b.jpg''])]"

definition example_env :: process_env where
  "example_env =
     map_of [(''MODEL_NOT_MODEL_URL'', ''https://vision.example/model-not-model''),
             (''MODEL_NOT_MODEL_KEY'', ''key-1''),
             (''CIVILIAN_HYBRID_URL'', ''https://vision.example/civilian-hybrid''),
             (''CIVILIAN_HYBRID_KEY'', ''key-2''),
             (''SUPERMODEL_COMMON_URL'', ''https://vision.example/supermodel-common''),
             (''SUPERMODEL_COMMON_KEY'', ''key-3'')]"

definition example_config :: config where
  "example_config =
     \<lparr>modelNotModelUrl = ''https://vision.example/model-not-model'',
      modelNotModelKey = ''key-1'',
      civilianHybridUrl = ''https://vision.example/civilian-hybrid'',
      civilianHybridKey = ''key-2'',
      superCommonUrl = ''https://vision.example/supermodel-common'',
      superCommonKey = ''key-3''\<rparr>"

text \<open>A fulfilled request whose response lists the given labels and probabilities.\<close>

definition answer :: "(string \<times> real) list \<Rightarrow> axios_error + axios_response" where
  "answer ps =
     Inr \<lparr>resp_predictions = Some (map (\<lambda>(t, p). \<lparr>tagName = t, probability = p\<rparr>) ps)\<rparr>"

text \<open>
  A classifier whose stage 1 averages to a tie (\<open>0.5\<close> for both labels) and whose
  SuperModel/Common model sees a tank, with \<open>0.97\<close> and \<open>0.93\<close>.
\<close>

definition remote_tie :: axios_post where
  "remote_tie n endpointUrl predictionKey url =
     (if endpointUrl = ''https://vision.example/model-not-model''
      then (if url = JStr ''a.jpg''
            then (120, answer [(''Model'', 0.6), (''NOT Model'', 0.4)])
            else (80, answer [(''Model'', 0.4), (''NOT Model'', 0.6)]))
      else if endpointUrl = ''https://vision.example/supermodel-common''
      then (if url = JStr ''a.jpg''
            then (90, answer [(''Tank'', 0.97)])
            else (70, answer [(''Tank'', 0.93)]))
      else (50, answer [(''Civilian'', 1)]))"

definition tie_stage1PerImage :: "imagePrediction list" where
  "tie_stage1PerImage =
     [\<lparr>imageUrl = JStr ''a.jpg'',
       predictions = [\<lparr>tagName = ''Model'', probability = 0.6\<rparr>,
                      \<lparr>tagName = ''NOT Model'', probability = 0.4\<rparr>]\<rparr>,
      \<lparr>imageUrl = JStr ''b.jpg'',
       predictions = [\<lparr>tagName = ''Model'', probability = 0.4\<rparr>,
                      \<lparr>tagName = ''NOT Model'', probability = 0.6\<rparr>]\<rparr>]"

definition tie_stage2PerImage :: "imagePrediction list" where
  "tie_stage2PerImage =
     [\<lparr>imageUrl = JStr ''a.jpg'',
       predictions = [\<lparr>tagName = ''Tank'', probability = 0.97\<rparr>]\<rparr>,
      \<lparr>imageUrl = JStr ''b.jpg'',
       predictions = [\<lparr>tagName = ''Tank'', probability = 0.93\<rparr>]\<rparr>]"

text \<open>
  A classifier whose stage 1 averages to a strict majority for \<^verbatim>\<open>Model\<close> (\<open>0.85\<close> against
  \<open>0.15\<close>), with the same SuperModel/Common model.
\<close>

definition remote_majority :: axios_post where
  "remote_majority n endpointUrl predictionKey url =
     (if endpointUrl = ''https://vision.example/model-not-model''
      then (if url = JStr ''a.jpg''
            then (120, answer [(''Model'', 0.9), (''NOT Model'', 0.1)])
            else (80, answer [(''Model'', 0.8), (''NOT Model'', 0.2)]))
      else if endpointUrl = ''https://vision.example/supermodel-common''
      then (if url = JStr ''a.jpg''
            then (90, answer [(''Tank'', 0.97)])
            else (70, answer [(''Tank'', 0.93)]))
      else (50, answer [(''Civilian'', 1)]))"

definition majority_stage1PerImage :: "imagePrediction list" where
  "majority_stage1PerImage =
     [\<lparr>imageUrl = JStr ''a.jpg'',
       predictions = [\<lparr>tagName = ''Model'', probability = 0.9\<rparr>,
                      \<lparr>tagName = ''NOT Model'', probability = 0.1\<rparr>]\<rparr>,
      \<lparr>imageUrl = JStr ''b.jpg'',
       predictions = [\<lparr>tagName = ''Model'', probability = 0.8\<rparr>,
                      \<lparr>tagName = ''NOT Model'', probability = 0.2\<rparr>]\<rparr>]"

text \<open>
  A classifier that rejects both requests of stage 1: the first after 25 seconds by
  timeout, the second at once, with status 400 and an error body.
\<close>

definition timeout_error :: axios_error where
  "timeout_error = \<lparr>response_data = None, message = ''timeout of 25000ms exceeded''\<rparr>"

definition bad_url_error :: axios_error where
  "bad_url_error =
     \<lparr>response_data = Some (JObj [(''code'', JStr ''BadRequestImageUrl'')]),
      message = ''Request failed with status code 400''\<rparr>"

definition remote_failing :: axios_post where
  "remote_failing n endpointUrl predictionKey url =
     (if url = JStr ''a.jpg'' then (25000, Inl timeout_error) else (300, Inl bad_url_error))"

text \<open>
  A classifier whose stage 1 answers for the first image only, and whose stage 2 sends no
  predictions: the list is absent for the first image and empty for the second.
\<close>

definition remote_silent :: axios_post where
  "remote_silent n endpointUrl predictionKey url =
     (if endpointUrl = ''https://vision.example/model-not-model''
      then (if url = JStr ''a.jpg''
            then (120, answer [(''Model'', 0.2), (''NOT Model'', 0.8)])
            else (80, Inr \<lparr>resp_predictions = None\<rparr>))
      else (if url = JStr ''a.jpg''
            then (60, Inr \<lparr>resp_predictions = None\<rparr>)
            else (40, Inr \<lparr>resp_predictions = Some []\<rparr>)))"

definition silent_stage1PerImage :: "imagePrediction list" where
  "silent_stage1PerImage =
     [\<lparr>imageUrl = JStr ''a.jpg'',
       predictions = [\<lparr>tagName = ''Model'', probability = 0.2\<rparr>,
                      \<lparr>tagName = ''NOT Model'', probability = 0.8\<rparr>]\<rparr>,
      \<lparr>imageUrl = JStr ''b.jpg'', predictions = []\<rparr>]"

definition silent_stage2PerImage :: "imagePrediction list" where
  "silent_stage2PerImage =
     [\<lparr>imageUrl = JStr ''a.jpg'', predictions = []\<rparr>,
      \<lparr>imageUrl = JStr ''b.jpg'', predictions = []\<rparr>]"

section \<open>Properties\<close>

subsection \<open>Objects\<close>

lemma set_Object_entries: "set (Object_entries obj) = set obj"
  by (auto simp: Object_entries_def)

lemma distinct_map_insort_key:
  "distinct (map g (insort_key f x xs)) = (g x \<notin> g ` set xs \<and> distinct (map g xs))"
  by (induction xs) (auto simp: set_insort_key)

lemma distinct_map_sort_key: "distinct (map g (sort_key f xs)) = distinct (map g xs)"
  by (induction xs) (simp_all add: distinct_map_insort_key)

lemma distinct_keys_Object_entries:
  assumes "distinct (map fst obj)"
  shows "distinct (map fst (Object_entries obj))"
  using assms
  by (auto simp: Object_entries_def distinct_map_sort_key distinct_map_filter)

lemma map_of_Object_entries:
  assumes "distinct (map fst obj)"
  shows "map_of (Object_entries obj) = map_of obj"
  using assms distinct_keys_Object_entries [OF assms]
  by (simp add: map_of_inject_set set_Object_entries)

lemma Object_entries_Nil: "Object_entries [] = []"
  by (simp add: Object_entries_def)

lemma keys_js_set: "fst ` set (js_set obj k v) = fst ` set obj \<union> ({k} - {''__proto__''})"
  by (auto simp: js_set_def dom_update)

lemma distinct_js_set: "distinct (map fst obj) \<Longrightarrow> distinct (map fst (js_set obj k v))"
  by (simp add: js_set_def distinct_update)

lemma map_of_js_set:
  "map_of (js_set obj k v) L = (if k = L \<and> k \<noteq> ''__proto__'' then Some v else map_of obj L)"
  by (simp add: js_set_def update_conv')

lemma keys_add_prediction:
  "fst ` set (add_prediction p s) = fst ` set s \<union> ({tagName p} - {''__proto__''})"
  by (auto simp: add_prediction_def Let_def keys_js_set)

lemma distinct_add_prediction:
  "distinct (map fst s) \<Longrightarrow> distinct (map fst (add_prediction p s))"
  by (simp add: add_prediction_def Let_def distinct_js_set)

lemma map_of_add_prediction_other:
  "tagName p \<noteq> L \<Longrightarrow> map_of (add_prediction p s) L = map_of s L"
  by (simp add: add_prediction_def Let_def map_of_js_set)


subsection \<open>The loops of \<^verbatim>\<open>averageByTag\<close>\<close>

lemma numeric_at_cases:
  "numeric_at s L \<Longrightarrow> map_of s L = None \<or> map_of s L = Some (Number (Num (sum_so_far s L)))"
  by (auto simp: numeric_at_def sum_so_far_def split: option.splits jsval.splits jsnumber.splits)

lemma add_prediction_same:
  assumes "tagName p = L" "L \<notin> set Object_prototype_names" "numeric_at s L"
  shows "map_of (add_prediction p s) L = Some (Number (Num (sum_so_far s L + probability p)))"
proof -
  have L: "L \<noteq> ''__proto__''"
    using assms(2) by (auto simp: Object_prototype_names_def)
  from numeric_at_cases [OF assms(3)] show ?thesis
  proof
    assume "map_of s L = None"
    then show ?thesis
      using assms(1,2) L
      by (simp add: add_prediction_def Let_def js_get_def map_of_js_set sum_so_far_def)
  next
    assume "map_of s L = Some (Number (Num (sum_so_far s L)))"
    then show ?thesis
      using assms(1) L
      by (cases "sum_so_far s L = 0")
         (simp_all add: add_prediction_def Let_def js_get_def map_of_js_set)
  qed
qed

lemma add_prediction_step:
  assumes "L \<notin> set Object_prototype_names" "numeric_at s L"
  shows "numeric_at (add_prediction p s) L"
    and "sum_so_far (add_prediction p s) L
           = sum_so_far s L + (if tagName p = L then probability p else 0)"
    and "map_of (add_prediction p s) L = None \<longleftrightarrow> map_of s L = None \<and> tagName p \<noteq> L"
proof -
  show "numeric_at (add_prediction p s) L"
  proof (cases "tagName p = L")
    case True
    then show ?thesis
      using add_prediction_same [OF True assms] by (simp add: numeric_at_def)
  next
    case False
    then show ?thesis
      using assms(2) by (simp add: numeric_at_def map_of_add_prediction_other)
  qed
  show "sum_so_far (add_prediction p s) L
           = sum_so_far s L + (if tagName p = L then probability p else 0)"
  proof (cases "tagName p = L")
    case True
    then show ?thesis
      using add_prediction_same [OF True assms] by (simp add: sum_so_far_def)
  next
    case False
    then show ?thesis
      by (simp add: sum_so_far_def map_of_add_prediction_other)
  qed
  show "map_of (add_prediction p s) L = None \<longleftrightarrow> map_of s L = None \<and> tagName p \<noteq> L"
  proof (cases "tagName p = L")
    case True
    then show ?thesis
      using add_prediction_same [OF True assms] by simp
  next
    case False
    then show ?thesis
      by (simp add: map_of_add_prediction_other)
  qed
qed

lemma fold_add_prediction:
  assumes "L \<notin> set Object_prototype_names" "numeric_at s L"
  shows "numeric_at (fold add_prediction ps s) L
     \<and> sum_so_far (fold add_prediction ps s) L
           = sum_so_far s L + sum_list (map probability (filter (\<lambda>p. tagName p = L) ps))
     \<and> (map_of (fold add_prediction ps s) L = None
           \<longleftrightarrow> map_of s L = None \<and> L \<notin> tagName ` set ps)"
  using assms(2)
proof (induction ps arbitrary: s)
  case Nil
  then show ?case by simp
next
  case (Cons p ps)
  note step = add_prediction_step [OF assms(1) Cons.prems, of p]
  from Cons.IH [OF step(1)] step(2,3) show ?case
    by auto
qed

lemma fold_add_image:
  assumes "L \<notin> set Object_prototype_names" "numeric_at (fst st) L"
  shows "numeric_at (fst (fold add_image imgs st)) L
     \<and> sum_so_far (fst (fold add_image imgs st)) L
           = sum_so_far (fst st) L + sum_list (map (probability_for L) imgs)
     \<and> (map_of (fst (fold add_image imgs st)) L = None
           \<longleftrightarrow> map_of (fst st) L = None \<and> L \<notin> labels_of imgs)"
  using assms(2)
proof (induction imgs arbitrary: st)
  case Nil
  then show ?case by (simp add: labels_of_def)
next
  case (Cons img imgs)
  note inner = fold_add_prediction [OF assms(1) Cons.prems, of "predictions img"]
  have "numeric_at (fst (add_image img st)) L"
    using inner by (simp add: add_image_def)
  from Cons.IH [OF this] inner show ?case
    by (auto simp: add_image_def probability_for_def labels_of_def)
qed

lemma count_fold_add_image: "snd (fold add_image imgs st) = snd st + length imgs"
  by (induction imgs arbitrary: st) (simp_all add: add_image_def)

lemma distinct_fold_add_prediction:
  "distinct (map fst s) \<Longrightarrow> distinct (map fst (fold add_prediction ps s))"
  by (induction ps arbitrary: s) (simp_all add: distinct_add_prediction)

lemma distinct_fold_add_image:
  "distinct (map fst (fst st)) \<Longrightarrow> distinct (map fst (fst (fold add_image imgs st)))"
  by (induction imgs arbitrary: st) (simp_all add: add_image_def distinct_fold_add_prediction)

lemma keys_fold_add_prediction:
  "fst ` set (fold add_prediction ps s) = fst ` set s \<union> (tagName ` set ps - {''__proto__''})"
  by (induction ps arbitrary: s) (auto simp: keys_add_prediction)

lemma keys_fold_add_image:
  "fst ` set (fst (fold add_image imgs st))
     = fst ` set (fst st) \<union> (labels_of imgs - {''__proto__''})"
proof (induction imgs arbitrary: st)
  case Nil
  then show ?case by (simp add: labels_of_def)
next
  case (Cons img imgs)
  show ?case
    by (simp add: Cons.IH) (auto simp: add_image_def keys_fold_add_prediction labels_of_def)
qed


lemma map_of_fold_js_set:
  assumes "distinct (map fst es)"
  shows "map_of (fold (\<lambda>(tag, v) a. js_set a tag (f v)) es a0) L
           = (if L = ''__proto__'' then map_of a0 L
              else case map_of es L of Some v \<Rightarrow> Some (f v) | None \<Rightarrow> map_of a0 L)"
  using assms
proof (induction es arbitrary: a0)
  case Nil
  then show ?case by simp
next
  case (Cons e es)
  obtain k v where e: "e = (k, v)" by (cases e)
  have "map_of es k = None"
    using Cons.prems e by (simp add: map_of_eq_None_iff)
  then show ?case
    using Cons.prems e by (auto simp: Cons.IH map_of_js_set split: option.splits)
qed

lemma keys_fold_js_set:
  "fst ` set (fold (\<lambda>(tag, v) a. js_set a tag (f v)) es a0)
     = fst ` set a0 \<union> (fst ` set es - {''__proto__''})"
proof (induction es arbitrary: a0)
  case Nil
  then show ?case by simp
next
  case (Cons e es)
  show ?case
    by (cases e) (auto simp: Cons.IH keys_js_set)
qed

lemma distinct_fold_js_set:
  "distinct (map fst a0)
     \<Longrightarrow> distinct (map fst (fold (\<lambda>(tag, v) a. js_set a tag (f v)) es a0))"
  by (induction es arbitrary: a0) (auto simp: distinct_js_set)

lemma averageByTag_unfold:
  "averageByTag imgs =
     fold (\<lambda>(tag, v) a. js_set a tag (js_div v (divisor (length imgs))))
       (Object_entries (fst (fold add_image imgs ([], 0)))) []"
  by (simp add: averageByTag_def split_beta count_fold_add_image)

lemma distinct_averageByTag: "distinct (map fst (averageByTag imgs))"
  by (simp add: averageByTag_unfold distinct_fold_js_set)

lemma keys_averageByTag: "fst ` set (averageByTag imgs) = labels_of imgs - {''__proto__''}"
  by (simp add: averageByTag_unfold keys_fold_js_set set_Object_entries keys_fold_add_image)

lemma averageByTag_ordinary:
  assumes "L \<notin> set Object_prototype_names"
  shows "map_of (averageByTag imgs) L
           = (if L \<in> labels_of imgs then Some (Num (spec_average imgs L)) else None)"
proof -
  let ?sums = "fst (fold add_image imgs ([], 0))"
  have L: "L \<noteq> ''__proto__''"
    using assms by (auto simp: Object_prototype_names_def)
  have d: "distinct (map fst ?sums)"
    by (simp add: distinct_fold_add_image)
  have loop: "numeric_at ?sums L"
    "sum_so_far ?sums L = sum_list (map (probability_for L) imgs)"
    "map_of ?sums L = None \<longleftrightarrow> L \<notin> labels_of imgs"
    using fold_add_image [OF assms, of "([], 0)" imgs]
    by (simp_all add: numeric_at_def sum_so_far_def)
  have avg: "map_of (averageByTag imgs) L
           = (case map_of ?sums L of
                Some v \<Rightarrow> Some (js_div v (divisor (length imgs))) | None \<Rightarrow> None)"
    using L
    by (simp add: averageByTag_unfold map_of_fold_js_set distinct_keys_Object_entries d
          map_of_Object_entries split: option.splits)
  show ?thesis
  proof (cases "L \<in> labels_of imgs")
    case False
    then show ?thesis
      using avg loop(3) by simp
  next
    case True
    then have "imgs \<noteq> []"
      by (auto simp: labels_of_def)
    then have n: "divisor (length imgs) = length imgs"
      by (simp add: divisor_def)
    from True loop(3) numeric_at_cases [OF loop(1)]
    have "map_of ?sums L = Some (Number (Num (sum_list (map (probability_for L) imgs))))"
      by (auto simp: loop(2))
    then show ?thesis
      using True avg n by (simp add: spec_average_def)
  qed
qed

subsection \<open>\<^verbatim>\<open>averageByTag\<close> on concrete batches\<close>

lemmas run_averageByTag =
  averageByTag_def add_image_def add_prediction_def js_get_def js_set_def
  Object_prototype_names_def divisor_def Object_entries_def array_index_def digit_of_def
  index_rank_def

text \<open>
  Claim C1: for every batch, the output of the Tag Averager for a label \<open>L\<close> is the sum
  over the images of the image's probability for \<open>L\<close> (\<open>0\<close> for an image without \<open>L\<close>)
  divided by the number of all images of the batch.

  Lemma \<open>averageByTag_ordinary\<close> shows that the code computes this for every label that
  is not a property name of \<^verbatim>\<open>Object.prototype\<close>. For a label that is one, here
  \<^verbatim>\<open>constructor\<close>, the code does not: \<^verbatim>\<open>sums\<close> is created by \<^verbatim>\<open>{}\<close>, so
  \<^verbatim>\<open>sums["constructor"]\<close> reads the inherited function, which is truthy; the guard
  \<^verbatim>\<open>if (!sums[tag]) sums[tag] = 0\<close> leaves it alone, \<^verbatim>\<open>+=\<close> stores a string, and the
  division yields \<open>NaN\<close>, where the claim gives \<open>0.5 / 2 = 0.25\<close>. The other label of the
  same batch still gets its average, \<open>(0.9 + 0.8) / 2 = 0.85\<close>.
\<close>

theorem averageByTag_inherited_name:
  "averageByTag
     [\<lparr>imageUrl = JStr ''a.jpg'',
        predictions = [\<lparr>tagName = ''Model'', probability = 0.9\<rparr>,
                       \<lparr>tagName = ''constructor'', probability = 0.5\<rparr>]\<rparr>,
      \<lparr>imageUrl = JStr ''b.jpg'',
        predictions = [\<lparr>tagName = ''Model'', probability = 0.8\<rparr>]\<rparr>]
   = [(''Model'', Num 0.85), (''constructor'', NaN)]
   \<and> spec_average
     [\<lparr>imageUrl = JStr ''a.jpg'',
        predictions = [\<lparr>tagName = ''Model'', probability = 0.9\<rparr>,
                       \<lparr>tagName = ''constructor'', probability = 0.5\<rparr>]\<rparr>,
      \<lparr>imageUrl = JStr ''b.jpg'',
        predictions = [\<lparr>tagName = ''Model'', probability = 0.8\<rparr>]\<rparr>] ''constructor''
   = 0.25"
  by (simp add: run_averageByTag spec_average_def probability_for_def)

text \<open>
  Claim C8: the Tag Averager is total on every input, the empty sequence of images
  included: when the image count is zero the divisor is \<open>1\<close>, so the division by the
  image count never divides by zero.

  \<open>averageByTag\<close> is defined by two nested folds without a failing branch, as the source
  has no statement that throws on a batch of images. The count that the loop reaches is
  the number of images; the divisor \<^verbatim>\<open>count || 1\<close> is that number, or \<open>1\<close> for no image, and
  is positive for every batch; the empty batch yields the empty mapping.
\<close>

theorem averageByTag_divisor:
  "divisor (snd (fold add_image perImage ([], 0))) = max 1 (length perImage)
   \<and> 0 < divisor (snd (fold add_image perImage ([], 0)))
   \<and> averageByTag [] = []"
  by (auto simp: count_fold_add_image divisor_def averageByTag_def Object_entries_Nil max_def
        Suc_le_eq)

text \<open>
  Claim C9 as stated (every probability of the batch in \<open>[0, 1]\<close> keeps every average in
  \<open>[0, 1]\<close>) fails: the code adds up every prediction of an image, so an image that lists
  a label twice contributes both probabilities, \<open>(0.9 + 0.8) / 1 = 1.7\<close>.
\<close>

theorem averageByTag_repeated_label:
  "averageByTag
     [\<lparr>imageUrl = JStr ''a.jpg'',
        predictions = [\<lparr>tagName = ''Tank'', probability = 0.9\<rparr>,
                       \<lparr>tagName = ''Tank'', probability = 0.8\<rparr>]\<rparr>]
   = [(''Tank'', Num 1.7)]
   \<and> \<not> in_unit_interval (Num 1.7)"
  by (simp add: run_averageByTag in_unit_interval_def)

subsection \<open>The range and the keys of the averages\<close>

lemma probability_for_bounds:
  assumes "distinct (map tagName (predictions img))"
      and "\<forall>p\<in>set (predictions img). 0 \<le> probability p \<and> probability p \<le> 1"
  shows "0 \<le> probability_for L img \<and> probability_for L img \<le> 1"
proof -
  have "distinct (map tagName ps)
        \<Longrightarrow> \<forall>p\<in>set ps. 0 \<le> probability p \<and> probability p \<le> 1
        \<Longrightarrow> 0 \<le> sum_list (map probability (filter (\<lambda>p. tagName p = L) ps))
          \<and> sum_list (map probability (filter (\<lambda>p. tagName p = L) ps)) \<le> 1"
    for ps :: "prediction list"
  proof (induction ps)
    case Nil
    then show ?case by simp
  next
    case (Cons p ps)
    show ?case
    proof (cases "tagName p = L")
      case True
      then have "L \<notin> tagName ` set ps"
        using Cons.prems(1) by auto
      then have "filter (\<lambda>p. tagName p = L) ps = []"
        by (auto simp: filter_empty_conv)
      then show ?thesis
        using True Cons.prems(2) by simp
    next
      case False
      then show ?thesis
        using Cons by simp
    qed
  qed
  from this [OF assms] show ?thesis
    by (simp add: probability_for_def)
qed

lemma sum_list_unit_bounds:
  fixes f :: "'a \<Rightarrow> real"
  assumes "\<forall>x\<in>set xs. 0 \<le> f x \<and> f x \<le> 1"
  shows "0 \<le> sum_list (map f xs) \<and> sum_list (map f xs) \<le> real (length xs)"
  using assms by (induction xs) auto

lemma spec_average_bounds:
  assumes "\<forall>img\<in>set perImage. distinct (map tagName (predictions img))"
      and "\<forall>img\<in>set perImage. \<forall>p\<in>set (predictions img). 0 \<le> probability p \<and> probability p \<le> 1"
  shows "0 \<le> spec_average perImage L \<and> spec_average perImage L \<le> 1"
proof -
  have "\<forall>img\<in>set perImage. 0 \<le> probability_for L img \<and> probability_for L img \<le> 1"
    using assms probability_for_bounds by blast
  from sum_list_unit_bounds [OF this] show ?thesis
    by (cases "perImage = []") (simp_all add: spec_average_def divide_le_eq)
qed

lemma averageByTag_no_predictions:
  assumes "\<forall>img\<in>set perImage. predictions img = []"
  shows "averageByTag perImage = []"
proof -
  have "labels_of perImage = {}"
    using assms by (simp add: labels_of_def)
  then have "fst ` set (averageByTag perImage) = {}"
    by (simp add: keys_averageByTag)
  then show ?thesis
    by simp
qed

text \<open>
  Claim C9, amended: for every batch in which every probability lies in \<open>[0, 1]\<close>, no
  image lists a label twice, and no label is a property name of \<^verbatim>\<open>Object.prototype\<close>,
  every value of the output of the Tag Averager is a number in \<open>[0, 1]\<close>, and the keys of
  the output are exactly the labels that appear in the predictions of at least one
  image.
\<close>

theorem averageByTag_range_and_keys:
  assumes "\<forall>img\<in>set perImage. \<forall>p\<in>set (predictions img). 0 \<le> probability p \<and> probability p \<le> 1"
      and "\<forall>img\<in>set perImage. distinct (map tagName (predictions img))"
      and "\<forall>L\<in>labels_of perImage. L \<notin> set Object_prototype_names"
  shows "(\<forall>e\<in>set (averageByTag perImage). in_unit_interval (snd e))
       \<and> fst ` set (averageByTag perImage) = labels_of perImage"
proof
  have "''__proto__'' \<notin> labels_of perImage"
    using assms(3) by (auto simp: Object_prototype_names_def)
  then show keys: "fst ` set (averageByTag perImage) = labels_of perImage"
    by (simp add: keys_averageByTag)
  show "\<forall>e\<in>set (averageByTag perImage). in_unit_interval (snd e)"
  proof
    fix e
    assume e: "e \<in> set (averageByTag perImage)"
    then have "fst e \<in> labels_of perImage"
      using keys by (metis imageI)
    moreover from this have "fst e \<notin> set Object_prototype_names"
      using assms(3) by blast
    moreover have "map_of (averageByTag perImage) (fst e) = Some (snd e)"
      using e distinct_averageByTag [of perImage] by simp
    ultimately have "snd e = Num (spec_average perImage (fst e))"
      by (simp add: averageByTag_ordinary)
    then show "in_unit_interval (snd e)"
      using spec_average_bounds [OF assms(2,1)] by (simp add: in_unit_interval_def)
  qed
qed

theorem averageByTag_range_and_keys_witness:
  "list_all (\<lambda>img. list_all (\<lambda>p. 0 \<le> probability p \<and> probability p \<le> 1) (predictions img))
     two_image_batch
   \<and> list_all (\<lambda>img. distinct (map tagName (predictions img))) two_image_batch
   \<and> labels_of two_image_batch \<inter> set Object_prototype_names = {}
   \<and> list_all (\<lambda>e. in_unit_interval (snd e)) (averageByTag two_image_batch)
   \<and> fst ` set (averageByTag two_image_batch) = labels_of two_image_batch"
proof -
  have h1: "\<forall>img\<in>set two_image_batch. \<forall>p\<in>set (predictions img). 0 \<le> probability p \<and> probability p \<le> 1"
    by (simp add: two_image_batch_def)
  have h2: "\<forall>img\<in>set two_image_batch. distinct (map tagName (predictions img))"
    by (simp add: two_image_batch_def)
  have h3: "\<forall>L\<in>labels_of two_image_batch. L \<notin> set Object_prototype_names"
    by (simp add: two_image_batch_def labels_of_def Object_prototype_names_def)
  from averageByTag_range_and_keys [OF h1 h2 h3] h1 h2 h3 show ?thesis
    by (auto simp: list_all_iff)
qed

subsection \<open>The loop of \<^verbatim>\<open>getMaxLabel\<close>\<close>

lemma fold_better:
  "(fold better es best = best
      \<and> (\<forall>j<length es. \<forall>x. snd (es ! j) = Num x \<longrightarrow> x \<le> probability_of best))
   \<or> (\<exists>i<length es.
         label (fold better es best) = Some (fst (es ! i))
       \<and> snd (es ! i) = Num (probability_of (fold better es best))
       \<and> probability_of best < probability_of (fold better es best)
       \<and> (\<forall>j<length es. \<forall>x. snd (es ! j) = Num x
             \<longrightarrow> x \<le> probability_of (fold better es best))
       \<and> (\<forall>j<i. \<forall>x. snd (es ! j) = Num x
             \<longrightarrow> x < probability_of (fold better es best)))"
  (is "?kept es \<or> ?found es")
proof (induction es rule: rev_induct)
  case Nil
  then show ?case by simp
next
  case (snoc e es)
  let ?old = "fold better es best"
  have below: "\<forall>j<length es. \<forall>x. snd (es ! j) = Num x \<longrightarrow> x \<le> probability_of ?old"
    using snoc.IH by auto
  show ?case
  proof (cases "\<exists>x. snd e = Num x \<and> probability_of ?old < x")
    case True
    then obtain x where x: "snd e = Num x" "probability_of ?old < x"
      by blast
    then have new: "fold better (es @ [e]) best = \<lparr>label = Some (fst e), probability_of = x\<rparr>"
      by (simp add: better_def)
    have lt: "\<forall>j<length es. \<forall>y. snd (es ! j) = Num y \<longrightarrow> y < x"
      using below x(2) by fastforce
    have "probability_of best \<le> probability_of ?old"
      using snoc.IH by auto
    then have "probability_of best < x"
      using x(2) by simp
    then have "?found (es @ [e])"
      using x(1) lt unfolding new
      by (intro exI [of _ "length es"]) (auto simp: nth_append less_Suc_eq)
    then show ?thesis ..
  next
    case False
    then have same: "fold better (es @ [e]) best = ?old"
      by (auto simp: better_def split: jsnumber.splits)
    have last: "\<forall>x. snd e = Num x \<longrightarrow> x \<le> probability_of ?old"
      using False by (auto simp: not_less)
    from snoc.IH show ?thesis
    proof
      assume "?kept es"
      then have "?kept (es @ [e])"
        using last unfolding same by (auto simp: nth_append less_Suc_eq)
      then show ?thesis ..
    next
      assume "?found es"
      then obtain i where i: "i < length es"
        "label ?old = Some (fst (es ! i))"
        "snd (es ! i) = Num (probability_of ?old)"
        "probability_of best < probability_of ?old"
        "\<forall>j<i. \<forall>x. snd (es ! j) = Num x \<longrightarrow> x < probability_of ?old"
        by blast
      have "?found (es @ [e])"
        unfolding same using i below last
        by (intro exI [of _ i]) (auto simp: nth_append less_Suc_eq)
      then show ?thesis ..
    qed
  qed
qed

text \<open>
  Claim C3: for every non-empty mapping from labels to probabilities, the Best-Label
  Selector returns the maximum probability of the mapping with a key that maps to it,
  the first such key in the order of iteration; for the empty mapping it returns the
  sentinel without label and with probability \<open>-1\<close>, below any probability.

  The order of iteration is that of \<open>Object_entries\<close>. The values of the mapping are
  numbers above \<open>-1\<close> (\<open>above_sentinel\<close>), as every probability is: entry \<open>i\<close> is the one
  returned, no entry exceeds it, and every entry before it is strictly smaller.
\<close>

theorem getMaxLabel_maximum:
  "getMaxLabel [] = \<lparr>label = None, probability_of = - 1\<rparr>
   \<and> (probMap \<noteq> [] \<and> (\<forall>e\<in>set probMap. above_sentinel (snd e))
        \<longrightarrow> (\<exists>i<length (Object_entries probMap).
               Object_entries probMap ! i \<in> set probMap
             \<and> label (getMaxLabel probMap) = Some (fst (Object_entries probMap ! i))
             \<and> snd (Object_entries probMap ! i) = Num (probability_of (getMaxLabel probMap))
             \<and> (\<forall>j<length (Object_entries probMap). \<forall>x.
                   snd (Object_entries probMap ! j) = Num x
                     \<longrightarrow> x \<le> probability_of (getMaxLabel probMap))
             \<and> (\<forall>j<i. \<forall>x.
                   snd (Object_entries probMap ! j) = Num x
                     \<longrightarrow> x < probability_of (getMaxLabel probMap))))"
proof (intro conjI impI)
  show "getMaxLabel [] = \<lparr>label = None, probability_of = - 1\<rparr>"
    by (simp add: getMaxLabel_def Object_entries_Nil)
next
  let ?es = "Object_entries probMap"
  let ?init = "\<lparr>label = None, probability_of = - 1\<rparr>"
  assume a: "probMap \<noteq> [] \<and> (\<forall>e\<in>set probMap. above_sentinel (snd e))"
  then have "set ?es \<noteq> {}"
    by (simp add: set_Object_entries)
  then have ne: "0 < length ?es"
    by auto
  then have "?es ! 0 \<in> set probMap"
    using nth_mem [of 0 ?es] by (simp add: set_Object_entries)
  then have "above_sentinel (snd (?es ! 0))"
    using a by blast
  then obtain x where x: "snd (?es ! 0) = Num x" "- 1 < x"
    by (auto simp: above_sentinel_def split: jsnumber.splits)
  have "\<not> (\<forall>j<length ?es. \<forall>x. snd (?es ! j) = Num x \<longrightarrow> x \<le> probability_of ?init)"
    using ne x by force
  with fold_better [of ?es ?init]
  obtain i where i: "i < length ?es"
    "label (fold better ?es ?init) = Some (fst (?es ! i))"
    "snd (?es ! i) = Num (probability_of (fold better ?es ?init))"
    "\<forall>j<length ?es. \<forall>x. snd (?es ! j) = Num x \<longrightarrow> x \<le> probability_of (fold better ?es ?init)"
    "\<forall>j<i. \<forall>x. snd (?es ! j) = Num x \<longrightarrow> x < probability_of (fold better ?es ?init)"
    by blast
  have "?es ! i \<in> set probMap"
    using nth_mem [OF i(1)] by (simp add: set_Object_entries)
  with i show "\<exists>i<length ?es.
               ?es ! i \<in> set probMap
             \<and> label (getMaxLabel probMap) = Some (fst (?es ! i))
             \<and> snd (?es ! i) = Num (probability_of (getMaxLabel probMap))
             \<and> (\<forall>j<length ?es. \<forall>x. snd (?es ! j) = Num x
                     \<longrightarrow> x \<le> probability_of (getMaxLabel probMap))
             \<and> (\<forall>j<i. \<forall>x. snd (?es ! j) = Num x
                     \<longrightarrow> x < probability_of (getMaxLabel probMap))"
    unfolding getMaxLabel_def by blast
qed

theorem getMaxLabel_maximum_witness:
  "tied_averages \<noteq> []
   \<and> list_all (\<lambda>e. above_sentinel (snd e)) tied_averages
   \<and> getMaxLabel tied_averages = \<lparr>label = Some ''Tank'', probability_of = 0.35\<rparr>
   \<and> (\<exists>i<length (Object_entries tied_averages).
               Object_entries tied_averages ! i \<in> set tied_averages
             \<and> label (getMaxLabel tied_averages) = Some (fst (Object_entries tied_averages ! i))
             \<and> snd (Object_entries tied_averages ! i)
                 = Num (probability_of (getMaxLabel tied_averages))
             \<and> (\<forall>j<length (Object_entries tied_averages). \<forall>x.
                   snd (Object_entries tied_averages ! j) = Num x
                     \<longrightarrow> x \<le> probability_of (getMaxLabel tied_averages))
             \<and> (\<forall>j<i. \<forall>x.
                   snd (Object_entries tied_averages ! j) = Num x
                     \<longrightarrow> x < probability_of (getMaxLabel tied_averages)))"
proof -
  have h: "tied_averages \<noteq> [] \<and> (\<forall>e\<in>set tied_averages. above_sentinel (snd e))"
    by (simp add: tied_averages_def above_sentinel_def)
  have v: "getMaxLabel tied_averages = \<lparr>label = Some ''Tank'', probability_of = 0.35\<rparr>"
    by (simp add: tied_averages_def getMaxLabel_def better_def Object_entries_def
          array_index_def digit_of_def)
  from getMaxLabel_maximum [of tied_averages] h v show ?thesis
    unfolding list_all_iff by blast
qed

subsection \<open>\<^verbatim>\<open>Promise.all\<close> and \<^verbatim>\<open>batchPredict\<close>\<close>

lemma set_rejections: "set (rejections ps) = {(t, e). (t, Inl e) \<in> set ps}"
  by (induction ps) (auto simp: rejections_def split: sum.splits)

lemma fulfilments_all:
  "\<forall>p\<in>set ps. \<not> isl (snd p) \<Longrightarrow> fulfilments ps = map (\<lambda>p. projr (snd p)) ps"
  by (induction ps) (auto simp: fulfilments_def split: sum.splits)

lemma rejections_none: "\<forall>p\<in>set ps. \<not> isl (snd p) \<Longrightarrow> rejections ps = []"
  by (induction ps) (auto simp: rejections_def split: sum.splits)

lemma copy_predictions:
  "map (\<lambda>p. \<lparr>tagName = tagName p, probability = probability p\<rparr>) ps = ps"
  by (induction ps) simp_all

lemma Promise_all_fulfilled:
  assumes "\<forall>p\<in>set ps. \<not> isl (snd p)"
  shows "Promise_all ps = Inr (map (\<lambda>p. projr (snd p)) ps)"
  using assms by (simp add: Promise_all_def fulfilments_all rejections_none)

lemma Promise_all_rejected:
  assumes "\<exists>p\<in>set ps. isl (snd p)"
  shows "\<exists>t e. (t, Inl e) \<in> set ps \<and> Promise_all ps = Inl e"
proof -
  from assms obtain t e where "(t, Inl e) \<in> set ps"
    by (metis isl_def prod.collapse)
  then have ne: "rejections ps \<noteq> []"
    using set_rejections [of ps] by auto
  then have "arg_min_list fst (rejections ps) \<in> set (rejections ps)"
    by (rule arg_min_list_in)
  then have "(fst (arg_min_list fst (rejections ps)), Inl (snd (arg_min_list fst (rejections ps))))
               \<in> set ps"
    by (auto simp: set_rejections)
  moreover have "Promise_all ps = Inl (snd (arg_min_list fst (rejections ps)))"
    using ne by (simp add: Promise_all_def split: list.splits)
  ultimately show ?thesis
    by blast
qed

lemma predict_one_fulfilled:
  "axios n e k u = (t, Inr resp) \<Longrightarrow>
     predict_one axios e k (n, u)
       = (t, Inr \<lparr>imageUrl = u,
                  predictions = (case resp_predictions resp of None \<Rightarrow> [] | Some ps \<Rightarrow> ps)\<rparr>)"
  by (simp add: predict_one_def copy_predictions)

lemma isl_predict_one:
  "isl (snd (predict_one axios e k (n, u))) = isl (snd (axios n e k u))"
  by (cases "axios n e k u"; cases "snd (axios n e k u)") (auto simp: predict_one_def)

lemma predict_one_Inl:
  "predict_one axios e k (n, u) = (t, Inl err) \<longleftrightarrow> axios n e k u = (t, Inl err)"
  by (cases "axios n e k u"; cases "snd (axios n e k u)") (auto simp: predict_one_def)

lemma batchPredict_fulfilled:
  assumes "\<forall>i<length urls. \<not> isl (snd (axios (first + i) e k (urls ! i)))"
  shows "fst (batchPredict axios first urls e k)
           = Inr (map (\<lambda>p. projr (snd (predict_one axios e k p))) (enumerate first urls))"
proof -
  have "\<not> isl (snd (predict_one axios e k p))" if "p \<in> set (enumerate first urls)" for p
  proof -
    from that have "fst p - first < length urls" "urls ! (fst p - first) = snd p"
      "first + (fst p - first) = fst p"
      by (auto simp: in_set_enumerate_eq)
    with assms have "\<not> isl (snd (axios (fst p) e k (snd p)))"
      by metis
    then show ?thesis
      using isl_predict_one [of axios e k "fst p" "snd p"] by simp
  qed
  then have "\<forall>p\<in>set (map (predict_one axios e k) (enumerate first urls)). \<not> isl (snd p)"
    by auto
  from Promise_all_fulfilled [OF this] show ?thesis
    by (simp add: batchPredict_def comp_def)
qed

lemma batchPredict_rejected:
  assumes "\<exists>i<length urls. isl (snd (axios (first + i) e k (urls ! i)))"
  shows "\<exists>j<length urls. \<exists>t err.
           axios (first + j) e k (urls ! j) = (t, Inl err)
         \<and> fst (batchPredict axios first urls e k) = Inl err"
proof -
  from assms obtain i where i: "i < length urls" "isl (snd (axios (first + i) e k (urls ! i)))"
    by blast
  then have "(first + i, urls ! i) \<in> set (enumerate first urls)"
    by (simp add: in_set_enumerate_eq)
  then have "\<exists>p\<in>set (map (predict_one axios e k) (enumerate first urls)). isl (snd p)"
    using i(2) by (force simp: isl_predict_one)
  from Promise_all_rejected [OF this]
  obtain t err where r: "(t, Inl err) \<in> set (map (predict_one axios e k) (enumerate first urls))"
    "fst (batchPredict axios first urls e k) = Inl err"
    by (auto simp: batchPredict_def)
  from r(1) obtain p where p: "p \<in> set (enumerate first urls)" "predict_one axios e k p = (t, Inl err)"
    by auto
  then have "first \<le> fst p" "fst p - first < length urls" "urls ! (fst p - first) = snd p"
    by (auto simp: in_set_enumerate_eq)
  moreover have "axios (fst p) e k (snd p) = (t, Inl err)"
    using p(2) predict_one_Inl [of axios e k "fst p" "snd p" t err] by simp
  ultimately show ?thesis
    using r(2) by (intro exI [of _ "fst p - first"]) auto
qed

lemma batchPredict_cases:
  "(\<forall>i<length urls. \<not> isl (snd (axios (first + i) e k (urls ! i))))
     \<and> fst (batchPredict axios first urls e k)
         = Inr (map (\<lambda>p. projr (snd (predict_one axios e k p))) (enumerate first urls))
   \<or> (\<exists>j<length urls. \<exists>t err.
           axios (first + j) e k (urls ! j) = (t, Inl err)
         \<and> fst (batchPredict axios first urls e k) = Inl err)"
  using batchPredict_fulfilled [of urls axios first e k] batchPredict_rejected [of urls axios first e k]
  by blast

lemma batchPredict_nth:
  assumes "\<forall>i<length urls. \<not> isl (snd (axios (first + i) e k (urls ! i)))"
    and "fst (batchPredict axios first urls e k) = Inr perImage"
  shows "length perImage = length urls"
    and "i < length urls \<Longrightarrow>
         \<exists>t resp. axios (first + i) e k (urls ! i) = (t, Inr resp)
           \<and> perImage ! i
               = \<lparr>imageUrl = urls ! i,
                  predictions = (case resp_predictions resp of None \<Rightarrow> [] | Some ps \<Rightarrow> ps)\<rparr>"
proof -
  have p: "perImage = map (\<lambda>p. projr (snd (predict_one axios e k p))) (enumerate first urls)"
    using batchPredict_fulfilled [of urls axios first e k] assms by simp
  then show "length perImage = length urls"
    by simp
  assume i: "i < length urls"
  with assms(1) obtain t resp where a: "axios (first + i) e k (urls ! i) = (t, Inr resp)"
    by (metis prod.collapse sum.collapse(2))
  have "perImage ! i = projr (snd (predict_one axios e k (first + i, urls ! i)))"
    using i by (simp add: p nth_enumerate_eq)
  with a show "\<exists>t resp. axios (first + i) e k (urls ! i) = (t, Inr resp)
           \<and> perImage ! i
               = \<lparr>imageUrl = urls ! i,
                  predictions = (case resp_predictions resp of None \<Rightarrow> [] | Some ps \<Rightarrow> ps)\<rparr>"
    using predict_one_fulfilled [of axios "first + i" e k "urls ! i" t resp, OF a] by simp
qed

lemmas run_batchPredict =
  batchPredict_def predict_one_def Promise_all_def rejections_def fulfilments_def answer_def
  example_urls_def example_config_def

lemma silent_stage1:
  "fst (batchPredict remote_silent 0 example_urls
          (modelNotModelUrl example_config) (modelNotModelKey example_config))
     = Inr silent_stage1PerImage"
  by (simp add: run_batchPredict remote_silent_def silent_stage1PerImage_def)


text \<open>
  Claim C6: for every non-empty sequence of image URLs, the Batch Predictor returns
  exactly one ImagePrediction per URL, in the order of the URLs; where the response for
  a URL omits the predictions list, the predictions of that image are the empty
  sequence, not an error.

  \<open>batchPredict\<close> returns when every request of the call is fulfilled (the other case is
  claim C4). The result then has the length of the input, entry \<open>i\<close> carries URL \<open>i\<close>, and
  its predictions are those of response \<open>i\<close>, or \<open>[]\<close> when the response has none. The
  sequence need not be non-empty.
\<close>

theorem batchPredict_one_per_url:
  assumes "\<forall>i<length imageUrls. \<exists>t resp.
             axios (first + i) endpointUrl predictionKey (imageUrls ! i) = (t, Inr resp)"
  shows "\<exists>perImage.
           fst (batchPredict axios first imageUrls endpointUrl predictionKey) = Inr perImage
         \<and> length perImage = length imageUrls
         \<and> (\<forall>i<length imageUrls.
               imageUrl (perImage ! i) = imageUrls ! i
             \<and> (\<forall>t resp.
                   axios (first + i) endpointUrl predictionKey (imageUrls ! i) = (t, Inr resp)
                   \<longrightarrow> predictions (perImage ! i)
                         = (case resp_predictions resp of None \<Rightarrow> [] | Some ps \<Rightarrow> ps)))"
proof -
  let ?one = "\<lambda>p. projr (snd (predict_one axios endpointUrl predictionKey p))"
  let ?perImage = "map ?one (enumerate first imageUrls)"
  have "\<forall>i<length imageUrls.
          \<not> isl (snd (axios (first + i) endpointUrl predictionKey (imageUrls ! i)))"
    using assms by fastforce
  then have "fst (batchPredict axios first imageUrls endpointUrl predictionKey) = Inr ?perImage"
    by (rule batchPredict_fulfilled)
  moreover have "length ?perImage = length imageUrls"
    by simp
  moreover have "imageUrl (?perImage ! i) = imageUrls ! i
      \<and> (\<forall>t resp.
            axios (first + i) endpointUrl predictionKey (imageUrls ! i) = (t, Inr resp)
            \<longrightarrow> predictions (?perImage ! i)
                  = (case resp_predictions resp of None \<Rightarrow> [] | Some ps \<Rightarrow> ps))"
    if "i < length imageUrls" for i
  proof -
    from assms that obtain t resp
      where a: "axios (first + i) endpointUrl predictionKey (imageUrls ! i) = (t, Inr resp)"
      by blast
    have "?perImage ! i = ?one (first + i, imageUrls ! i)"
      using that by (simp add: nth_enumerate_eq)
    then show ?thesis
      using predict_one_fulfilled
              [of axios "first + i" endpointUrl predictionKey "imageUrls ! i" t resp, OF a] a
      by simp
  qed
  ultimately show ?thesis
    by blast
qed

theorem batchPredict_one_per_url_witness:
  "fst (batchPredict remote_silent 0 example_urls
          (modelNotModelUrl example_config) (modelNotModelKey example_config))
     = Inr silent_stage1PerImage
   \<and> (\<exists>perImage.
         fst (batchPredict remote_silent 0 example_urls
                (modelNotModelUrl example_config) (modelNotModelKey example_config))
           = Inr perImage
       \<and> length perImage = length example_urls
       \<and> (\<forall>i<length example_urls.
             imageUrl (perImage ! i) = example_urls ! i
           \<and> (\<forall>t resp.
                 remote_silent (0 + i) (modelNotModelUrl example_config)
                   (modelNotModelKey example_config) (example_urls ! i) = (t, Inr resp)
                 \<longrightarrow> predictions (perImage ! i)
                       = (case resp_predictions resp of None \<Rightarrow> [] | Some ps \<Rightarrow> ps))))"
proof -
  have h: "\<forall>i<length example_urls. \<exists>t resp.
             remote_silent (0 + i) (modelNotModelUrl example_config)
               (modelNotModelKey example_config) (example_urls ! i) = (t, Inr resp)"
    by (simp add: example_urls_def example_config_def remote_silent_def answer_def
          less_Suc_eq eval_nat_numeral)
  from h silent_stage1
    batchPredict_one_per_url
      [where axios = remote_silent and first = 0 and imageUrls = example_urls
         and endpointUrl = "modelNotModelUrl example_config"
         and predictionKey = "modelNotModelKey example_config"]
  show ?thesis
    by blast
qed


subsection \<open>The runs of the handler\<close>

lemma classify_stages_stage1_rejected:
  assumes "fst (batchPredict axios 0 urls (modelNotModelUrl cfg) (modelNotModelKey cfg)) = Inl err"
  shows "classify_stages cfg axios urls
           = (fst (catch_block err),
              map (AxiosPost (modelNotModelUrl cfg) (modelNotModelKey cfg)) urls
              @ snd (catch_block err))"
  using assms by (simp add: classify_stages_def batchPredict_def)

lemma classify_stages_stage2_rejected:
  assumes "fst (batchPredict axios 0 urls (modelNotModelUrl cfg) (modelNotModelKey cfg)) = Inr s1"
      and "fst (batchPredict axios (length urls) urls (stage2_url cfg s1) (stage2_key cfg s1)) = Inl err"
  shows "classify_stages cfg axios urls
           = (fst (catch_block err),
              map (AxiosPost (modelNotModelUrl cfg) (modelNotModelKey cfg)) urls
              @ map (AxiosPost (stage2_url cfg s1) (stage2_key cfg s1)) urls
              @ snd (catch_block err))"
  using assms
  by (simp add: classify_stages_def batchPredict_def Let_def stage2_url_def stage2_key_def
        says_model_def)

lemma classify_stages_fulfilled:
  assumes "fst (batchPredict axios 0 urls (modelNotModelUrl cfg) (modelNotModelKey cfg)) = Inr s1"
      and "fst (batchPredict axios (length urls) urls (stage2_url cfg s1) (stage2_key cfg s1)) = Inr s2"
  shows "classify_stages cfg axios urls
           = ((200, ResultBody (result_of urls s1 s2)),
              map (AxiosPost (modelNotModelUrl cfg) (modelNotModelKey cfg)) urls
              @ map (AxiosPost (stage2_url cfg s1) (stage2_key cfg s1)) urls)"
  using assms
  by (simp add: classify_stages_def batchPredict_def Let_def stage2_url_def stage2_key_def
        says_model_def result_of_def)

lemma classify_valid:
  assumes "body_imageUrls body = Some (JArr urls)" "urls \<noteq> []" "load_config env = Some cfg"
  shows "classify env axios body
           = (fst (classify_stages cfg axios urls),
              config_reads @ snd (classify_stages cfg axios urls))"
  using assms by (simp add: classify_def)

lemma classify_invalid:
  assumes "body_imageUrls body = None
         \<or> (\<exists>v. body_imageUrls body = Some v \<and> (\<forall>urls. v \<noteq> JArr urls))
         \<or> body_imageUrls body = Some (JArr [])"
  shows "classify env axios body = (bad_request, [])"
  using assms by (auto simp: classify_def split: option.splits json.splits)

lemma classify_unconfigured:
  assumes "body_imageUrls body = Some (JArr urls)" "urls \<noteq> []" "load_config env = None"
  shows "classify env axios body = (keys_not_set, config_reads)"
  using assms by (simp add: classify_def)

lemma requests_append: "requests (xs @ ys) = requests xs @ requests ys"
  by (induction xs) (simp_all add: requests_def split: option.splits)

lemma requests_config_reads: "requests config_reads = []"
  by (simp add: requests_def config_reads_def)

lemma requests_catch_block: "requests (snd (catch_block err)) = []"
  by (simp add: requests_def catch_block_def)

lemma requests_posts: "requests (map (AxiosPost e k) urls) = map (\<lambda>u. (e, k, u)) urls"
  by (induction urls) (simp_all add: requests_def)

lemma classify_reaches_stages:
  assumes "requests (snd (classify env axios body)) \<noteq> []"
  shows "\<exists>urls cfg. body_imageUrls body = Some (JArr urls) \<and> urls \<noteq> []
           \<and> load_config env = Some cfg"
proof (rule ccontr)
  assume none: "\<not> ?thesis"
  show False
  proof (cases "\<exists>urls. body_imageUrls body = Some (JArr urls) \<and> urls \<noteq> []")
    case True
    then obtain urls where u: "body_imageUrls body = Some (JArr urls)" "urls \<noteq> []"
      by blast
    with none have "load_config env = None"
      by (cases "load_config env") auto
    from classify_unconfigured [OF u this] assms show False
      by (simp add: requests_config_reads)
  next
    case False
    then have "body_imageUrls body = None
         \<or> (\<exists>v. body_imageUrls body = Some v \<and> (\<forall>urls. v \<noteq> JArr urls))
         \<or> body_imageUrls body = Some (JArr [])"
      by (cases "body_imageUrls body") auto
    from classify_invalid [OF this] assms show False
      by (simp add: requests_def)
  qed
qed

lemma classify_after_stage1:
  assumes valid: "body_imageUrls body = Some (JArr urls)" "urls \<noteq> []"
    "load_config env = Some cfg"
    and s1: "fst (batchPredict axios 0 urls (modelNotModelUrl cfg) (modelNotModelKey cfg)) = Inr s1"
  shows "requests (snd (classify env axios body))
           = map (\<lambda>u. (modelNotModelUrl cfg, modelNotModelKey cfg, u)) urls
             @ map (\<lambda>u. (stage2_url cfg s1, stage2_key cfg s1, u)) urls"
    and "(\<exists>err. fst (batchPredict axios (length urls) urls (stage2_url cfg s1) (stage2_key cfg s1))
                 = Inl err
               \<and> fst (classify env axios body) = fst (catch_block err))
       \<or> (\<exists>s2. fst (batchPredict axios (length urls) urls (stage2_url cfg s1) (stage2_key cfg s1))
                 = Inr s2
               \<and> fst (classify env axios body) = (200, ResultBody (result_of urls s1 s2)))"
proof -
  note c = classify_valid [OF valid, of axios]
  let ?stage2 = "fst (batchPredict axios (length urls) urls (stage2_url cfg s1) (stage2_key cfg s1))"
  have "requests (snd (classify env axios body))
           = map (\<lambda>u. (modelNotModelUrl cfg, modelNotModelKey cfg, u)) urls
             @ map (\<lambda>u. (stage2_url cfg s1, stage2_key cfg s1, u)) urls
      \<and> ((\<exists>err. ?stage2 = Inl err \<and> fst (classify env axios body) = fst (catch_block err))
         \<or> (\<exists>s2. ?stage2 = Inr s2
               \<and> fst (classify env axios body) = (200, ResultBody (result_of urls s1 s2))))"
  proof (cases ?stage2)
    case (Inl err)
    then show ?thesis
      by (simp add: c classify_stages_stage2_rejected [OF s1 Inl] requests_append
            requests_config_reads requests_catch_block requests_posts)
  next
    case (Inr s2)
    then show ?thesis
      by (simp add: c classify_stages_fulfilled [OF s1 Inr] requests_append
            requests_config_reads requests_posts)
  qed
  then show "requests (snd (classify env axios body))
           = map (\<lambda>u. (modelNotModelUrl cfg, modelNotModelKey cfg, u)) urls
             @ map (\<lambda>u. (stage2_url cfg s1, stage2_key cfg s1, u)) urls"
    and "(\<exists>err. ?stage2 = Inl err \<and> fst (classify env axios body) = fst (catch_block err))
       \<or> (\<exists>s2. ?stage2 = Inr s2
               \<and> fst (classify env axios body) = (200, ResultBody (result_of urls s1 s2)))"
    by blast+
qed

lemma classify_run:
  assumes valid: "body_imageUrls body = Some (JArr urls)" "urls \<noteq> []"
    "load_config env = Some cfg"
  shows
    "(\<exists>j<length urls. \<exists>t err.
        axios j (modelNotModelUrl cfg) (modelNotModelKey cfg) (urls ! j) = (t, Inl err)
      \<and> fst (batchPredict axios 0 urls (modelNotModelUrl cfg) (modelNotModelKey cfg)) = Inl err
      \<and> fst (classify env axios body) = fst (catch_block err)
      \<and> requests (snd (classify env axios body))
          = map (\<lambda>u. (modelNotModelUrl cfg, modelNotModelKey cfg, u)) urls)
   \<or> (\<exists>s1.
        (\<forall>i<length urls.
           \<not> isl (snd (axios i (modelNotModelUrl cfg) (modelNotModelKey cfg) (urls ! i))))
      \<and> fst (batchPredict axios 0 urls (modelNotModelUrl cfg) (modelNotModelKey cfg)) = Inr s1
      \<and> requests (snd (classify env axios body))
          = map (\<lambda>u. (modelNotModelUrl cfg, modelNotModelKey cfg, u)) urls
            @ map (\<lambda>u. (stage2_url cfg s1, stage2_key cfg s1, u)) urls
      \<and> ((\<exists>j<length urls. \<exists>t err.
             axios (length urls + j) (stage2_url cfg s1) (stage2_key cfg s1) (urls ! j)
               = (t, Inl err)
           \<and> fst (batchPredict axios (length urls) urls (stage2_url cfg s1) (stage2_key cfg s1))
               = Inl err
           \<and> fst (classify env axios body) = fst (catch_block err))
         \<or> (\<exists>s2.
             (\<forall>i<length urls.
                \<not> isl (snd (axios (length urls + i) (stage2_url cfg s1) (stage2_key cfg s1)
                               (urls ! i))))
           \<and> fst (batchPredict axios (length urls) urls (stage2_url cfg s1) (stage2_key cfg s1))
               = Inr s2
           \<and> fst (classify env axios body) = (200, ResultBody (result_of urls s1 s2)))))"
proof -
  let ?e1 = "modelNotModelUrl cfg" and ?k1 = "modelNotModelKey cfg"
  note c = classify_valid [OF valid, of axios]
  from batchPredict_cases [of urls axios 0 ?e1 ?k1] show ?thesis
  proof
    assume "\<exists>j<length urls. \<exists>t err.
              axios (0 + j) ?e1 ?k1 (urls ! j) = (t, Inl err)
            \<and> fst (batchPredict axios 0 urls ?e1 ?k1) = Inl err"
    then obtain j t err where j: "j < length urls"
      "axios j ?e1 ?k1 (urls ! j) = (t, Inl err)"
      "fst (batchPredict axios 0 urls ?e1 ?k1) = Inl err"
      by auto
    have "fst (classify env axios body) = fst (catch_block err)"
      "requests (snd (classify env axios body)) = map (\<lambda>u. (?e1, ?k1, u)) urls"
      by (simp_all add: c classify_stages_stage1_rejected [OF j(3)] requests_append
            requests_config_reads requests_catch_block requests_posts)
    with j show ?thesis
      by blast
  next
    assume "(\<forall>i<length urls. \<not> isl (snd (axios (0 + i) ?e1 ?k1 (urls ! i))))
          \<and> fst (batchPredict axios 0 urls ?e1 ?k1)
              = Inr (map (\<lambda>p. projr (snd (predict_one axios ?e1 ?k1 p))) (enumerate 0 urls))"
    then obtain s1 where s1: "\<forall>i<length urls. \<not> isl (snd (axios i ?e1 ?k1 (urls ! i)))"
      "fst (batchPredict axios 0 urls ?e1 ?k1) = Inr s1"
      by auto
    let ?e2 = "stage2_url cfg s1" and ?k2 = "stage2_key cfg s1"
    from batchPredict_cases [of urls axios "length urls" ?e2 ?k2]
    have "requests (snd (classify env axios body))
            = map (\<lambda>u. (?e1, ?k1, u)) urls @ map (\<lambda>u. (?e2, ?k2, u)) urls
        \<and> ((\<exists>j<length urls. \<exists>t err.
               axios (length urls + j) ?e2 ?k2 (urls ! j) = (t, Inl err)
             \<and> fst (batchPredict axios (length urls) urls ?e2 ?k2) = Inl err
             \<and> fst (classify env axios body) = fst (catch_block err))
           \<or> (\<exists>s2.
               (\<forall>i<length urls. \<not> isl (snd (axios (length urls + i) ?e2 ?k2 (urls ! i))))
             \<and> fst (batchPredict axios (length urls) urls ?e2 ?k2) = Inr s2
             \<and> fst (classify env axios body) = (200, ResultBody (result_of urls s1 s2))))"
    proof
      assume "\<exists>j<length urls. \<exists>t err.
                axios (length urls + j) ?e2 ?k2 (urls ! j) = (t, Inl err)
              \<and> fst (batchPredict axios (length urls) urls ?e2 ?k2) = Inl err"
      then obtain j t err where j: "j < length urls"
        "axios (length urls + j) ?e2 ?k2 (urls ! j) = (t, Inl err)"
        "fst (batchPredict axios (length urls) urls ?e2 ?k2) = Inl err"
        by auto
      have "fst (classify env axios body) = fst (catch_block err)"
        "requests (snd (classify env axios body))
           = map (\<lambda>u. (?e1, ?k1, u)) urls @ map (\<lambda>u. (?e2, ?k2, u)) urls"
        by (simp_all add: c classify_stages_stage2_rejected [OF s1(2) j(3)] requests_append
              requests_config_reads requests_catch_block requests_posts)
      with j show ?thesis
        by blast
    next
      assume "(\<forall>i<length urls. \<not> isl (snd (axios (length urls + i) ?e2 ?k2 (urls ! i))))
            \<and> fst (batchPredict axios (length urls) urls ?e2 ?k2)
                = Inr (map (\<lambda>p. projr (snd (predict_one axios ?e2 ?k2 p)))
                        (enumerate (length urls) urls))"
      then obtain s2 where s2:
        "\<forall>i<length urls. \<not> isl (snd (axios (length urls + i) ?e2 ?k2 (urls ! i)))"
        "fst (batchPredict axios (length urls) urls ?e2 ?k2) = Inr s2"
        by auto
      have "fst (classify env axios body) = (200, ResultBody (result_of urls s1 s2))"
        "requests (snd (classify env axios body))
           = map (\<lambda>u. (?e1, ?k1, u)) urls @ map (\<lambda>u. (?e2, ?k2, u)) urls"
        by (simp_all add: c classify_stages_fulfilled [OF s1(2) s2(2)] requests_append
              requests_config_reads requests_posts)
      with s2 show ?thesis
        by blast
    qed
    with s1 show ?thesis
      by blast
  qed
qed

lemma outcome_stage1:
  assumes "requests tr = map (\<lambda>u. (e1, k1, u)) urls @ rest" "n < length urls"
  shows "outcome axios tr n = snd (axios n e1 k1 (urls ! n))"
  using assms by (simp add: outcome_def nth_append)

lemma outcome_stage2:
  assumes "requests tr = map (\<lambda>u. (e1, k1, u)) urls @ map (\<lambda>u. (e2, k2, u)) urls"
    "i < length urls"
  shows "outcome axios tr (length urls + i) = snd (axios (length urls + i) e2 k2 (urls ! i))"
  using assms by (simp add: outcome_def nth_append)

lemma error_details_eq:
  "error_details err
     = (case response_data err of
          Some d \<Rightarrow> if json_truthy d then d
                    else JStr (if message err = [] then ''Unknown error'' else message err)
        | None \<Rightarrow> JStr (if message err = [] then ''Unknown error'' else message err))"
  by (simp add: error_details_def data_or_message_def split: option.splits)

lemma classify_all_fulfilled:
  assumes valid: "body_imageUrls body = Some (JArr urls)" "urls \<noteq> []"
    "load_config env = Some cfg"
    and ok: "\<forall>n<length (requests (snd (classify env axios body))). \<forall>e.
               outcome axios (snd (classify env axios body)) n \<noteq> Inl e"
  shows "\<exists>s1 s2.
           (\<forall>i<length urls.
              \<not> isl (snd (axios (length urls + i) (stage2_url cfg s1) (stage2_key cfg s1)
                             (urls ! i))))
         \<and> fst (batchPredict axios (length urls) urls (stage2_url cfg s1) (stage2_key cfg s1))
             = Inr s2
         \<and> requests (snd (classify env axios body))
             = map (\<lambda>u. (modelNotModelUrl cfg, modelNotModelKey cfg, u)) urls
               @ map (\<lambda>u. (stage2_url cfg s1, stage2_key cfg s1, u)) urls
         \<and> fst (classify env axios body) = (200, ResultBody (result_of urls s1 s2))"
proof -
  let ?tr = "snd (classify env axios body)"
  let ?e1 = "modelNotModelUrl cfg" and ?k1 = "modelNotModelKey cfg"
  from classify_run [OF valid, of axios] show ?thesis
  proof (elim disjE exE conjE)
    fix j t err
    assume j: "j < length urls" "axios j ?e1 ?k1 (urls ! j) = (t, Inl err)"
      "requests ?tr = map (\<lambda>u. (?e1, ?k1, u)) urls"
    then have "outcome axios ?tr j = Inl err"
      using outcome_stage1 [of ?tr ?e1 ?k1 urls "[]" j axios] by simp
    with ok j(1,3) show ?thesis
      by simp
  next
    fix s1 j t err
    let ?e2 = "stage2_url cfg s1" and ?k2 = "stage2_key cfg s1"
    assume j: "j < length urls" "axios (length urls + j) ?e2 ?k2 (urls ! j) = (t, Inl err)"
      "requests ?tr = map (\<lambda>u. (?e1, ?k1, u)) urls @ map (\<lambda>u. (?e2, ?k2, u)) urls"
    then have "outcome axios ?tr (length urls + j) = Inl err"
      using outcome_stage2 [of ?tr ?e1 ?k1 urls ?e2 ?k2 j axios] by simp
    moreover have "length urls + j < length (requests ?tr)"
      using j(1,3) by simp
    ultimately show ?thesis
      using ok by blast
  next
    fix s1 s2
    let ?e2 = "stage2_url cfg s1" and ?k2 = "stage2_key cfg s1"
    assume "\<forall>i<length urls. \<not> isl (snd (axios (length urls + i) ?e2 ?k2 (urls ! i)))"
      "fst (batchPredict axios (length urls) urls ?e2 ?k2) = Inr s2"
      "requests ?tr = map (\<lambda>u. (?e1, ?k1, u)) urls @ map (\<lambda>u. (?e2, ?k2, u)) urls"
      "fst (classify env axios body) = (200, ResultBody (result_of urls s1 s2))"
    then show ?thesis
      by blast
  qed
qed


subsection \<open>Concrete runs\<close>

lemma load_example_config: "load_config example_env = Some example_config"
  by (simp add: load_config_def example_env_def example_config_def unset_def or_default_def)

lemma example_valid:
  "body_imageUrls example_body = Some (JArr example_urls)" "example_urls \<noteq> []"
  by (simp_all add: example_body_def example_urls_def)

lemma tie_stage1:
  "fst (batchPredict remote_tie 0 example_urls
          (modelNotModelUrl example_config) (modelNotModelKey example_config))
     = Inr tie_stage1PerImage"
  by (simp add: run_batchPredict remote_tie_def tie_stage1PerImage_def)

lemma tie_averages:
  "averageByTag tie_stage1PerImage = [(''Model'', Num 0.5), (''NOT Model'', Num 0.5)]"
  by (simp add: run_averageByTag tie_stage1PerImage_def)

lemma tie_says_model: "says_model tie_stage1PerImage"
  by (simp add: says_model_def tie_averages average_or_zero_def)

lemma tie_stage2:
  "fst (batchPredict remote_tie (length example_urls) example_urls
          (stage2_url example_config tie_stage1PerImage)
          (stage2_key example_config tie_stage1PerImage))
     = Inr tie_stage2PerImage"
  by (simp add: stage2_url_def stage2_key_def tie_says_model run_batchPredict remote_tie_def
        tie_stage2PerImage_def)

lemma tie_run:
  "classify example_env remote_tie example_body
     = ((200, ResultBody (result_of example_urls tie_stage1PerImage tie_stage2PerImage)),
        config_reads
        @ [AxiosPost ''https://vision.example/model-not-model'' ''key-1'' (JStr ''a.jpg''),
           AxiosPost ''https://vision.example/model-not-model'' ''key-1'' (JStr ''b.jpg''),
           AxiosPost ''https://vision.example/supermodel-common'' ''key-3'' (JStr ''a.jpg''),
           AxiosPost ''https://vision.example/supermodel-common'' ''key-3'' (JStr ''b.jpg'')])"
  unfolding classify_valid [OF example_valid load_example_config]
    classify_stages_fulfilled [OF tie_stage1 tie_stage2]
  by (simp add: stage2_url_def stage2_key_def tie_says_model example_config_def example_urls_def)

lemma tie_requests:
  "requests (snd (classify example_env remote_tie example_body))
     = [(''https://vision.example/model-not-model'', ''key-1'', JStr ''a.jpg''),
        (''https://vision.example/model-not-model'', ''key-1'', JStr ''b.jpg''),
        (''https://vision.example/supermodel-common'', ''key-3'', JStr ''a.jpg''),
        (''https://vision.example/supermodel-common'', ''key-3'', JStr ''b.jpg'')]"
  by (simp add: tie_run requests_append requests_config_reads) (simp add: requests_def)

lemma tie_outcomes:
  "\<forall>n<length (requests (snd (classify example_env remote_tie example_body))). \<forall>e.
     outcome remote_tie (snd (classify example_env remote_tie example_body)) n \<noteq> Inl e"
  by (simp add: tie_requests outcome_def remote_tie_def answer_def less_Suc_eq
        numeral_2_eq_2 numeral_3_eq_3 eval_nat_numeral)

lemma tie_stage2_averages: "averageByTag tie_stage2PerImage = [(''Tank'', Num 0.95)]"
  by (simp add: run_averageByTag tie_stage2PerImage_def)

lemma majority_stage1:
  "fst (batchPredict remote_majority 0 example_urls
          (modelNotModelUrl example_config) (modelNotModelKey example_config))
     = Inr majority_stage1PerImage"
  by (simp add: run_batchPredict remote_majority_def majority_stage1PerImage_def)

lemma majority_averages:
  "averageByTag majority_stage1PerImage = [(''Model'', Num 0.85), (''NOT Model'', Num 0.15)]"
  by (simp add: run_averageByTag majority_stage1PerImage_def)

lemma majority_says_model: "says_model majority_stage1PerImage"
  by (simp add: says_model_def majority_averages average_or_zero_def)

lemma majority_stage2:
  "fst (batchPredict remote_majority (length example_urls) example_urls
          (stage2_url example_config majority_stage1PerImage)
          (stage2_key example_config majority_stage1PerImage))
     = Inr tie_stage2PerImage"
  by (simp add: stage2_url_def stage2_key_def majority_says_model run_batchPredict
        remote_majority_def tie_stage2PerImage_def)

lemma majority_run:
  "fst (classify example_env remote_majority example_body)
     = (200, ResultBody (result_of example_urls majority_stage1PerImage tie_stage2PerImage))"
  unfolding classify_valid [OF example_valid load_example_config]
    classify_stages_fulfilled [OF majority_stage1 majority_stage2]
  by simp

lemma failing_stage1:
  "fst (batchPredict remote_failing 0 example_urls
          (modelNotModelUrl example_config) (modelNotModelKey example_config))
     = Inl bad_url_error"
  by (simp add: run_batchPredict remote_failing_def)

lemma failing_run:
  "classify example_env remote_failing example_body
     = ((500, ErrorBody ''Internal server error''
                (Some (JObj [(''code'', JStr ''BadRequestImageUrl'')]))),
        config_reads
        @ [AxiosPost ''https://vision.example/model-not-model'' ''key-1'' (JStr ''a.jpg''),
           AxiosPost ''https://vision.example/model-not-model'' ''key-1'' (JStr ''b.jpg''),
           ConsoleError (LoggedValue (JObj [(''code'', JStr ''BadRequestImageUrl'')]))])"
  unfolding classify_valid [OF example_valid load_example_config]
    classify_stages_stage1_rejected [OF failing_stage1]
  by (simp add: catch_block_def error_details_def data_or_message_def bad_url_error_def
        example_config_def example_urls_def)

lemma failing_requests:
  "requests (snd (classify example_env remote_failing example_body))
     = [(''https://vision.example/model-not-model'', ''key-1'', JStr ''a.jpg''),
        (''https://vision.example/model-not-model'', ''key-1'', JStr ''b.jpg'')]"
  by (simp add: failing_run requests_append requests_config_reads) (simp add: requests_def)

lemma silent_averages:
  "averageByTag silent_stage1PerImage = [(''Model'', Num 0.1), (''NOT Model'', Num 0.4)]"
  by (simp add: run_averageByTag silent_stage1PerImage_def)

lemma silent_says_not_model: "\<not> says_model silent_stage1PerImage"
  by (simp add: says_model_def silent_averages average_or_zero_def)

lemma silent_stage2:
  "fst (batchPredict remote_silent (length example_urls) example_urls
          (stage2_url example_config silent_stage1PerImage)
          (stage2_key example_config silent_stage1PerImage))
     = Inr silent_stage2PerImage"
  by (simp add: stage2_url_def stage2_key_def silent_says_not_model run_batchPredict
        remote_silent_def silent_stage2PerImage_def)

lemma silent_run:
  "classify example_env remote_silent example_body
     = ((200, ResultBody (result_of example_urls silent_stage1PerImage silent_stage2PerImage)),
        config_reads
        @ [AxiosPost ''https://vision.example/model-not-model'' ''key-1'' (JStr ''a.jpg''),
           AxiosPost ''https://vision.example/model-not-model'' ''key-1'' (JStr ''b.jpg''),
           AxiosPost ''https://vision.example/civilian-hybrid'' ''key-2'' (JStr ''a.jpg''),
           AxiosPost ''https://vision.example/civilian-hybrid'' ''key-2'' (JStr ''b.jpg'')])"
  unfolding classify_valid [OF example_valid load_example_config]
    classify_stages_fulfilled [OF silent_stage1 silent_stage2]
  by (simp add: stage2_url_def stage2_key_def silent_says_not_model example_config_def
        example_urls_def)

lemma silent_requests:
  "requests (snd (classify example_env remote_silent example_body))
     = [(''https://vision.example/model-not-model'', ''key-1'', JStr ''a.jpg''),
        (''https://vision.example/model-not-model'', ''key-1'', JStr ''b.jpg''),
        (''https://vision.example/civilian-hybrid'', ''key-2'', JStr ''a.jpg''),
        (''https://vision.example/civilian-hybrid'', ''key-2'', JStr ''b.jpg'')]"
  by (simp add: silent_run requests_append requests_config_reads) (simp add: requests_def)


subsection \<open>The answers of the handler\<close>

text \<open>
  Claim C7: for every request in which \<^verbatim>\<open>imageUrls\<close> is missing, not a list, or an
  empty list, the service answers with status 400 and an error message that names
  \<^verbatim>\<open>imageUrls\<close>, and makes no downstream prediction call and no credential check.

  The run has no event at all: no request is sent and \<^verbatim>\<open>process.env\<close> is not read, and the
  answer is the same for every environment, with or without keys.
\<close>

theorem classify_invalid_imageUrls:
  assumes "body_imageUrls body = None
         \<or> (\<exists>v. body_imageUrls body = Some v \<and> (\<forall>urls. v \<noteq> JArr urls))
         \<or> body_imageUrls body = Some (JArr [])"
  shows "classify env axios body
           = ((400, ErrorBody ''imageUrls must be a non-empty array of URLs'' None), [])"
  using classify_invalid [OF assms] by (simp add: bad_request_def)

theorem classify_invalid_imageUrls_witness:
  "body_imageUrls (BodyObject []) = None
   \<and> classify (\<lambda>name. None) remote_tie (BodyObject [])
       = ((400, ErrorBody ''imageUrls must be a non-empty array of URLs'' None), [])"
  using classify_invalid_imageUrls [of "BodyObject []" "\<lambda>name. None" remote_tie] by simp


lemma ordinary_names:
  "''Model'' \<notin> set Object_prototype_names" "''NOT Model'' \<notin> set Object_prototype_names"
  by (simp_all add: Object_prototype_names_def)

lemma stage1_average_number:
  assumes "L \<notin> set Object_prototype_names"
  shows "average_or_zero (averageByTag perImage) L
           = Num (if L \<in> labels_of perImage then spec_average perImage L else 0)"
  by (simp add: average_or_zero_def averageByTag_ordinary [OF assms])

text \<open>
  Claim C2: the branch decision is \<open>isModel = (modelProb \<ge> notModelProb)\<close> on the averages
  of stage 1 for \<^verbatim>\<open>Model\<close> and \<^verbatim>\<open>NOT Model\<close>, a label absent from the averages counting
  as \<open>0\<close>; \<open>isModel\<close> sends the requests of stage 2 to the SuperModel/Common endpoint with
  its key (branch \<^verbatim>\<open>SuperModelCommonModel\<close>), its negation to the Civilian/Hybrid endpoint
  with its key (branch \<^verbatim>\<open>CivilianHybrid\<close>); an exact tie selects SuperModel/Common.

  Once stage 1 has returned, the two averages (\<open>0\<close> for an absent label) are numbers,
  \<open>modelProb\<close> and \<open>notModelProb\<close>. The requests of the run are those of stage 1 followed by
  one request per URL, to the SuperModel/Common endpoint with its key when
  \<open>notModelProb \<le> modelProb\<close> and to the Civilian/Hybrid endpoint with its key otherwise,
  and an answer \<open>200\<close> reports the two numbers, the decision and the branch. The three
  runs that follow the theorem have a majority for \<^verbatim>\<open>Model\<close> (\<open>0.85\<close> against \<open>0.15\<close>), a
  majority for \<^verbatim>\<open>NOT Model\<close> (\<open>0.1\<close> against \<open>0.4\<close>) and a tie (\<open>0.5\<close> each).
\<close>

theorem classify_branch:
  assumes "body_imageUrls body = Some (JArr imageUrls)" "imageUrls \<noteq> []"
      and "load_config env = Some cfg"
      and "fst (batchPredict axios 0 imageUrls (modelNotModelUrl cfg) (modelNotModelKey cfg))
             = Inr stage1PerImage"
  shows "\<exists>modelProb notModelProb.
           (case map_of (averageByTag stage1PerImage) ''Model'' of
              Some v \<Rightarrow> v | None \<Rightarrow> Num 0) = Num modelProb
         \<and> (case map_of (averageByTag stage1PerImage) ''NOT Model'' of
              Some v \<Rightarrow> v | None \<Rightarrow> Num 0) = Num notModelProb
         \<and> requests (snd (classify env axios body))
             = map (\<lambda>u. (modelNotModelUrl cfg, modelNotModelKey cfg, u)) imageUrls
               @ map (\<lambda>u. if notModelProb \<le> modelProb
                           then (superCommonUrl cfg, superCommonKey cfg, u)
                           else (civilianHybridUrl cfg, civilianHybridKey cfg, u)) imageUrls
         \<and> (\<forall>r. fst (classify env axios body) = (200, ResultBody r)
               \<longrightarrow> isModel (stage1 r) = (notModelProb \<le> modelProb)
                 \<and> modelProbability (stage1 r) = Num modelProb
                 \<and> notModelProbability (stage1 r) = Num notModelProb
                 \<and> branch (stage2 r) = (if notModelProb \<le> modelProb
                                        then ''SuperModelCommonModel''
                                        else ''CivilianHybrid''))"
proof -
  define a where
    "a = (if ''Model'' \<in> labels_of stage1PerImage
          then spec_average stage1PerImage ''Model'' else 0)"
  define b where
    "b = (if ''NOT Model'' \<in> labels_of stage1PerImage
          then spec_average stage1PerImage ''NOT Model'' else 0)"
  have avg: "average_or_zero (averageByTag stage1PerImage) ''Model'' = Num a"
    "average_or_zero (averageByTag stage1PerImage) ''NOT Model'' = Num b"
    by (simp_all add: a_def b_def stage1_average_number ordinary_names)
  then have m: "says_model stage1PerImage = (b \<le> a)"
    by (simp add: says_model_def)
  note after = classify_after_stage1 [OF assms]
  have "isModel (stage1 r) = (b \<le> a)
      \<and> modelProbability (stage1 r) = Num a
      \<and> notModelProbability (stage1 r) = Num b
      \<and> branch (stage2 r) = (if b \<le> a then ''SuperModelCommonModel'' else ''CivilianHybrid'')"
    if "fst (classify env axios body) = (200, ResultBody r)" for r
  proof -
    from after(2) that obtain s2 where "r = result_of imageUrls stage1PerImage s2"
      by (auto simp: catch_block_def)
    then show ?thesis
      by (simp add: result_of_def m avg)
  qed
  moreover have "requests (snd (classify env axios body))
           = map (\<lambda>u. (modelNotModelUrl cfg, modelNotModelKey cfg, u)) imageUrls
             @ map (\<lambda>u. if b \<le> a
                         then (superCommonUrl cfg, superCommonKey cfg, u)
                         else (civilianHybridUrl cfg, civilianHybridKey cfg, u)) imageUrls"
    by (simp add: after(1) stage2_url_def stage2_key_def m)
  moreover have "(case map_of (averageByTag stage1PerImage) ''Model'' of
              Some v \<Rightarrow> v | None \<Rightarrow> Num 0) = Num a"
    "(case map_of (averageByTag stage1PerImage) ''NOT Model'' of
              Some v \<Rightarrow> v | None \<Rightarrow> Num 0) = Num b"
    using avg by (simp_all add: average_or_zero_def)
  ultimately show ?thesis
    by blast
qed

theorem classify_branch_witness:
  "requests (snd (classify example_env remote_majority example_body))
     = [(''https://vision.example/model-not-model'', ''key-1'', JStr ''a.jpg''),
        (''https://vision.example/model-not-model'', ''key-1'', JStr ''b.jpg''),
        (''https://vision.example/supermodel-common'', ''key-3'', JStr ''a.jpg''),
        (''https://vision.example/supermodel-common'', ''key-3'', JStr ''b.jpg'')]
   \<and> (\<exists>r. fst (classify example_env remote_majority example_body) = (200, ResultBody r)
          \<and> modelProbability (stage1 r) = Num 0.85
          \<and> notModelProbability (stage1 r) = Num 0.15
          \<and> isModel (stage1 r)
          \<and> branch (stage2 r) = ''SuperModelCommonModel'')
   \<and> requests (snd (classify example_env remote_silent example_body))
     = [(''https://vision.example/model-not-model'', ''key-1'', JStr ''a.jpg''),
        (''https://vision.example/model-not-model'', ''key-1'', JStr ''b.jpg''),
        (''https://vision.example/civilian-hybrid'', ''key-2'', JStr ''a.jpg''),
        (''https://vision.example/civilian-hybrid'', ''key-2'', JStr ''b.jpg'')]
   \<and> (\<exists>r. fst (classify example_env remote_silent example_body) = (200, ResultBody r)
          \<and> modelProbability (stage1 r) = Num 0.1
          \<and> notModelProbability (stage1 r) = Num 0.4
          \<and> \<not> isModel (stage1 r)
          \<and> branch (stage2 r) = ''CivilianHybrid'')
   \<and> requests (snd (classify example_env remote_tie example_body))
     = [(''https://vision.example/model-not-model'', ''key-1'', JStr ''a.jpg''),
        (''https://vision.example/model-not-model'', ''key-1'', JStr ''b.jpg''),
        (''https://vision.example/supermodel-common'', ''key-3'', JStr ''a.jpg''),
        (''https://vision.example/supermodel-common'', ''key-3'', JStr ''b.jpg'')]
   \<and> (\<exists>r. fst (classify example_env remote_tie example_body) = (200, ResultBody r)
          \<and> modelProbability (stage1 r) = Num 0.5
          \<and> notModelProbability (stage1 r) = Num 0.5
          \<and> isModel (stage1 r)
          \<and> branch (stage2 r) = ''SuperModelCommonModel'')"
proof -
  have majority:
    "requests (snd (classify example_env remote_majority example_body))
     = [(''https://vision.example/model-not-model'', ''key-1'', JStr ''a.jpg''),
        (''https://vision.example/model-not-model'', ''key-1'', JStr ''b.jpg''),
        (''https://vision.example/supermodel-common'', ''key-3'', JStr ''a.jpg''),
        (''https://vision.example/supermodel-common'', ''key-3'', JStr ''b.jpg'')]
   \<and> (\<exists>r. fst (classify example_env remote_majority example_body) = (200, ResultBody r)
          \<and> modelProbability (stage1 r) = Num 0.85
          \<and> notModelProbability (stage1 r) = Num 0.15
          \<and> isModel (stage1 r)
          \<and> branch (stage2 r) = ''SuperModelCommonModel'')"
  proof -
    from classify_branch [OF example_valid load_example_config majority_stage1]
    obtain a b where ab:
      "(case map_of (averageByTag majority_stage1PerImage) ''Model'' of
          Some v \<Rightarrow> v | None \<Rightarrow> Num 0) = Num a"
      "(case map_of (averageByTag majority_stage1PerImage) ''NOT Model'' of
          Some v \<Rightarrow> v | None \<Rightarrow> Num 0) = Num b"
      and run:
      "requests (snd (classify example_env remote_majority example_body))
         = map (\<lambda>u. (modelNotModelUrl example_config, modelNotModelKey example_config, u))
             example_urls
           @ map (\<lambda>u. if b \<le> a
                       then (superCommonUrl example_config, superCommonKey example_config, u)
                       else (civilianHybridUrl example_config, civilianHybridKey example_config,
                             u)) example_urls"
      "\<forall>r. fst (classify example_env remote_majority example_body) = (200, ResultBody r)
           \<longrightarrow> isModel (stage1 r) = (b \<le> a)
             \<and> modelProbability (stage1 r) = Num a
             \<and> notModelProbability (stage1 r) = Num b
             \<and> branch (stage2 r) = (if b \<le> a then ''SuperModelCommonModel''
                                    else ''CivilianHybrid'')"
      by blast
    from ab have v: "a = 0.85" "b = 0.15"
      by (simp_all add: majority_averages)
    from run(1) have "requests (snd (classify example_env remote_majority example_body))
     = [(''https://vision.example/model-not-model'', ''key-1'', JStr ''a.jpg''),
        (''https://vision.example/model-not-model'', ''key-1'', JStr ''b.jpg''),
        (''https://vision.example/supermodel-common'', ''key-3'', JStr ''a.jpg''),
        (''https://vision.example/supermodel-common'', ''key-3'', JStr ''b.jpg'')]"
      by (simp add: v example_config_def example_urls_def)
    moreover from run(2) majority_run
    have "\<exists>r. fst (classify example_env remote_majority example_body) = (200, ResultBody r)
          \<and> modelProbability (stage1 r) = Num 0.85
          \<and> notModelProbability (stage1 r) = Num 0.15
          \<and> isModel (stage1 r)
          \<and> branch (stage2 r) = ''SuperModelCommonModel''"
      by (simp add: v)
    ultimately show ?thesis
      by blast
  qed
  have minority:
    "requests (snd (classify example_env remote_silent example_body))
     = [(''https://vision.example/model-not-model'', ''key-1'', JStr ''a.jpg''),
        (''https://vision.example/model-not-model'', ''key-1'', JStr ''b.jpg''),
        (''https://vision.example/civilian-hybrid'', ''key-2'', JStr ''a.jpg''),
        (''https://vision.example/civilian-hybrid'', ''key-2'', JStr ''b.jpg'')]
   \<and> (\<exists>r. fst (classify example_env remote_silent example_body) = (200, ResultBody r)
          \<and> modelProbability (stage1 r) = Num 0.1
          \<and> notModelProbability (stage1 r) = Num 0.4
          \<and> \<not> isModel (stage1 r)
          \<and> branch (stage2 r) = ''CivilianHybrid'')"
  proof -
    from classify_branch [OF example_valid load_example_config silent_stage1]
    obtain a b where ab:
      "(case map_of (averageByTag silent_stage1PerImage) ''Model'' of
          Some v \<Rightarrow> v | None \<Rightarrow> Num 0) = Num a"
      "(case map_of (averageByTag silent_stage1PerImage) ''NOT Model'' of
          Some v \<Rightarrow> v | None \<Rightarrow> Num 0) = Num b"
      and run:
      "requests (snd (classify example_env remote_silent example_body))
         = map (\<lambda>u. (modelNotModelUrl example_config, modelNotModelKey example_config, u))
             example_urls
           @ map (\<lambda>u. if b \<le> a
                       then (superCommonUrl example_config, superCommonKey example_config, u)
                       else (civilianHybridUrl example_config, civilianHybridKey example_config,
                             u)) example_urls"
      "\<forall>r. fst (classify example_env remote_silent example_body) = (200, ResultBody r)
           \<longrightarrow> isModel (stage1 r) = (b \<le> a)
             \<and> modelProbability (stage1 r) = Num a
             \<and> notModelProbability (stage1 r) = Num b
             \<and> branch (stage2 r) = (if b \<le> a then ''SuperModelCommonModel''
                                    else ''CivilianHybrid'')"
      by blast
    from ab have v: "a = 0.1" "b = 0.4"
      by (simp_all add: silent_averages)
    from run(1) have "requests (snd (classify example_env remote_silent example_body))
     = [(''https://vision.example/model-not-model'', ''key-1'', JStr ''a.jpg''),
        (''https://vision.example/model-not-model'', ''key-1'', JStr ''b.jpg''),
        (''https://vision.example/civilian-hybrid'', ''key-2'', JStr ''a.jpg''),
        (''https://vision.example/civilian-hybrid'', ''key-2'', JStr ''b.jpg'')]"
      by (simp add: v example_config_def example_urls_def)
    moreover from run(2) silent_run
    have "\<exists>r. fst (classify example_env remote_silent example_body) = (200, ResultBody r)
          \<and> modelProbability (stage1 r) = Num 0.1
          \<and> notModelProbability (stage1 r) = Num 0.4
          \<and> \<not> isModel (stage1 r)
          \<and> branch (stage2 r) = ''CivilianHybrid''"
      by (simp add: v)
    ultimately show ?thesis
      by blast
  qed
  have tie:
    "requests (snd (classify example_env remote_tie example_body))
     = [(''https://vision.example/model-not-model'', ''key-1'', JStr ''a.jpg''),
        (''https://vision.example/model-not-model'', ''key-1'', JStr ''b.jpg''),
        (''https://vision.example/supermodel-common'', ''key-3'', JStr ''a.jpg''),
        (''https://vision.example/supermodel-common'', ''key-3'', JStr ''b.jpg'')]
   \<and> (\<exists>r. fst (classify example_env remote_tie example_body) = (200, ResultBody r)
          \<and> modelProbability (stage1 r) = Num 0.5
          \<and> notModelProbability (stage1 r) = Num 0.5
          \<and> isModel (stage1 r)
          \<and> branch (stage2 r) = ''SuperModelCommonModel'')"
  proof -
    from classify_branch [OF example_valid load_example_config tie_stage1]
    obtain a b where ab:
      "(case map_of (averageByTag tie_stage1PerImage) ''Model'' of
          Some v \<Rightarrow> v | None \<Rightarrow> Num 0) = Num a"
      "(case map_of (averageByTag tie_stage1PerImage) ''NOT Model'' of
          Some v \<Rightarrow> v | None \<Rightarrow> Num 0) = Num b"
      and run:
      "requests (snd (classify example_env remote_tie example_body))
         = map (\<lambda>u. (modelNotModelUrl example_config, modelNotModelKey example_config, u))
             example_urls
           @ map (\<lambda>u. if b \<le> a
                       then (superCommonUrl example_config, superCommonKey example_config, u)
                       else (civilianHybridUrl example_config, civilianHybridKey example_config,
                             u)) example_urls"
      "\<forall>r. fst (classify example_env remote_tie example_body) = (200, ResultBody r)
           \<longrightarrow> isModel (stage1 r) = (b \<le> a)
             \<and> modelProbability (stage1 r) = Num a
             \<and> notModelProbability (stage1 r) = Num b
             \<and> branch (stage2 r) = (if b \<le> a then ''SuperModelCommonModel''
                                    else ''CivilianHybrid'')"
      by blast
    from ab have v: "a = 0.5" "b = 0.5"
      by (simp_all add: tie_averages)
    from run(1) have "requests (snd (classify example_env remote_tie example_body))
     = [(''https://vision.example/model-not-model'', ''key-1'', JStr ''a.jpg''),
        (''https://vision.example/model-not-model'', ''key-1'', JStr ''b.jpg''),
        (''https://vision.example/supermodel-common'', ''key-3'', JStr ''a.jpg''),
        (''https://vision.example/supermodel-common'', ''key-3'', JStr ''b.jpg'')]"
      by (simp add: v example_config_def example_urls_def)
    moreover from run(2) tie_run
    have "\<exists>r. fst (classify example_env remote_tie example_body) = (200, ResultBody r)
          \<and> modelProbability (stage1 r) = Num 0.5
          \<and> notModelProbability (stage1 r) = Num 0.5
          \<and> isModel (stage1 r)
          \<and> branch (stage2 r) = ''SuperModelCommonModel''"
      by (simp add: v)
    ultimately show ?thesis
      by blast
  qed
  from majority minority tie show ?thesis
    by blast
qed

text \<open>
  Claim C4: if any per-image prediction request fails (network error, timeout, status
  outside 2xx), the whole Batch Predictor operation fails without partial results, and
  \<^verbatim>\<open>/classify\<close> answers 500 with a \<^verbatim>\<open>details\<close> field that carries the remote error payload
  when available and a message otherwise, and with no averages.

  First part: a call of \<open>batchPredict\<close> with a rejected request is rejected, with the reason
  of one of its rejected requests. Second part: if any request that the handler sent is
  rejected, the answer is 500 with the body \<^verbatim>\<open>{ error, details }\<close>, which has no averages;
  \<open>details\<close> comes from a rejected request of the run: its payload \<^verbatim>\<open>err.response.data\<close>
  when there is one and it is truthy (\<^verbatim>\<open>||\<close> skips \<^verbatim>\<open>null\<close>, \<^verbatim>\<open>false\<close>, \<open>0\<close> and the empty
  string), else its message, else \<^verbatim>\<open>"Unknown error"\<close>.
\<close>

theorem classify_rejected_request:
  "((\<exists>i<length imageUrls. \<exists>t e.
        axios (first + i) endpointUrl predictionKey (imageUrls ! i) = (t, Inl e))
     \<longrightarrow> (\<exists>j<length imageUrls. \<exists>t err.
            axios (first + j) endpointUrl predictionKey (imageUrls ! j) = (t, Inl err)
          \<and> fst (batchPredict axios first imageUrls endpointUrl predictionKey) = Inl err))
   \<and> ((\<exists>n<length (requests (snd (classify env axios body))). \<exists>e.
        outcome axios (snd (classify env axios body)) n = Inl e)
     \<longrightarrow> (\<exists>m<length (requests (snd (classify env axios body))). \<exists>err.
            outcome axios (snd (classify env axios body)) m = Inl err
          \<and> fst (classify env axios body)
              = (500, ErrorBody ''Internal server error''
                   (Some (case response_data err of
                            Some d \<Rightarrow>
                              if json_truthy d then d
                              else JStr (if message err = [] then ''Unknown error''
                                         else message err)
                          | None \<Rightarrow>
                              JStr (if message err = [] then ''Unknown error''
                                    else message err))))))"
proof (intro conjI impI)
  assume "\<exists>i<length imageUrls. \<exists>t e.
            axios (first + i) endpointUrl predictionKey (imageUrls ! i) = (t, Inl e)"
  then have "\<exists>i<length imageUrls.
               isl (snd (axios (first + i) endpointUrl predictionKey (imageUrls ! i)))"
    by force
  then show "\<exists>j<length imageUrls. \<exists>t err.
            axios (first + j) endpointUrl predictionKey (imageUrls ! j) = (t, Inl err)
          \<and> fst (batchPredict axios first imageUrls endpointUrl predictionKey) = Inl err"
    by (rule batchPredict_rejected)
next
  let ?tr = "snd (classify env axios body)"
  let ?answer = "\<lambda>err. (500, ErrorBody ''Internal server error'' (Some (error_details err)))"
  assume "\<exists>n<length (requests ?tr). \<exists>e. outcome axios ?tr n = Inl e"
  then obtain n e where n: "n < length (requests ?tr)" "outcome axios ?tr n = Inl e"
    by blast
  then have "requests ?tr \<noteq> []"
    by auto
  from classify_reaches_stages [OF this]
  obtain urls cfg where valid: "body_imageUrls body = Some (JArr urls)" "urls \<noteq> []"
    "load_config env = Some cfg"
    by blast
  let ?e1 = "modelNotModelUrl cfg" and ?k1 = "modelNotModelKey cfg"
  have "\<exists>m<length (requests ?tr). \<exists>err.
          outcome axios ?tr m = Inl err \<and> fst (classify env axios body) = ?answer err"
    using classify_run [OF valid, of axios]
  proof (elim disjE exE conjE)
    fix j t err
    assume j: "j < length urls" "axios j ?e1 ?k1 (urls ! j) = (t, Inl err)"
      "fst (classify env axios body) = fst (catch_block err)"
      "requests ?tr = map (\<lambda>u. (?e1, ?k1, u)) urls"
    then have "outcome axios ?tr j = Inl err"
      using outcome_stage1 [of ?tr ?e1 ?k1 urls "[]" j axios] by simp
    with j show ?thesis
      by (intro exI [of _ j]) (auto simp: catch_block_def)
  next
    fix s1 j t err
    let ?e2 = "stage2_url cfg s1" and ?k2 = "stage2_key cfg s1"
    assume j: "j < length urls" "axios (length urls + j) ?e2 ?k2 (urls ! j) = (t, Inl err)"
      "fst (classify env axios body) = fst (catch_block err)"
      "requests ?tr = map (\<lambda>u. (?e1, ?k1, u)) urls @ map (\<lambda>u. (?e2, ?k2, u)) urls"
    then have "outcome axios ?tr (length urls + j) = Inl err"
      using outcome_stage2 [of ?tr ?e1 ?k1 urls ?e2 ?k2 j axios] by simp
    with j show ?thesis
      by (intro exI [of _ "length urls + j"]) (auto simp: catch_block_def)
  next
    fix s1 s2
    let ?e2 = "stage2_url cfg s1" and ?k2 = "stage2_key cfg s1"
    assume ok: "\<forall>i<length urls. \<not> isl (snd (axios i ?e1 ?k1 (urls ! i)))"
      "\<forall>i<length urls. \<not> isl (snd (axios (length urls + i) ?e2 ?k2 (urls ! i)))"
      "requests ?tr = map (\<lambda>u. (?e1, ?k1, u)) urls @ map (\<lambda>u. (?e2, ?k2, u)) urls"
    have "\<not> isl (outcome axios ?tr n)"
    proof (cases "n < length urls")
      case True
      then show ?thesis
        using ok(1) outcome_stage1 [OF ok(3) True, of axios] by simp
    next
      case False
      then have i: "n - length urls < length urls" "n = length urls + (n - length urls)"
        using n(1) ok(3) by auto
      show ?thesis
        using ok(2) i(1) outcome_stage2 [OF ok(3) i(1), of axios] i(2) by metis
    qed
    with n(2) show ?thesis
      by simp
  qed
  then show "\<exists>m<length (requests ?tr). \<exists>err.
            outcome axios ?tr m = Inl err
          \<and> fst (classify env axios body)
              = (500, ErrorBody ''Internal server error''
                   (Some (case response_data err of
                            Some d \<Rightarrow>
                              if json_truthy d then d
                              else JStr (if message err = [] then ''Unknown error''
                                         else message err)
                          | None \<Rightarrow>
                              JStr (if message err = [] then ''Unknown error''
                                    else message err))))"
    by (simp add: error_details_eq)
qed

theorem classify_rejected_request_witness:
  "outcome remote_failing (snd (classify example_env remote_failing example_body)) 0
     = Inl timeout_error
   \<and> outcome remote_failing (snd (classify example_env remote_failing example_body)) 1
     = Inl bad_url_error
   \<and> fst (batchPredict remote_failing 0 example_urls
            (modelNotModelUrl example_config) (modelNotModelKey example_config))
     = Inl bad_url_error
   \<and> fst (classify example_env remote_failing example_body)
     = (500, ErrorBody ''Internal server error''
               (Some (JObj [(''code'', JStr ''BadRequestImageUrl'')])))
   \<and> (\<exists>m<length (requests (snd (classify example_env remote_failing example_body))). \<exists>err.
         outcome remote_failing (snd (classify example_env remote_failing example_body)) m
           = Inl err
       \<and> fst (classify example_env remote_failing example_body)
           = (500, ErrorBody ''Internal server error''
                (Some (case response_data err of
                         Some d \<Rightarrow>
                           if json_truthy d then d
                           else JStr (if message err = [] then ''Unknown error''
                                      else message err)
                       | None \<Rightarrow>
                           JStr (if message err = [] then ''Unknown error''
                                 else message err)))))"
proof -
  have o: "outcome remote_failing (snd (classify example_env remote_failing example_body)) 0
             = Inl timeout_error"
    "outcome remote_failing (snd (classify example_env remote_failing example_body)) 1
             = Inl bad_url_error"
    by (simp_all add: outcome_def failing_requests remote_failing_def)
  have h: "\<exists>n<length (requests (snd (classify example_env remote_failing example_body))). \<exists>e.
             outcome remote_failing (snd (classify example_env remote_failing example_body)) n
               = Inl e"
    using o(1) by (intro exI [of _ 0]) (simp add: failing_requests)
  from h o failing_stage1 failing_run
    classify_rejected_request
      [where axios = remote_failing and env = example_env and body = example_body
         and imageUrls = example_urls and first = 0
         and endpointUrl = "modelNotModelUrl example_config"
         and predictionKey = "modelNotModelKey example_config"]
  show ?thesis
    by simp
qed


text \<open>
  Claim C5: the high-confidence flag is (final label probability \<open>\<ge> 0.95\<close>); it is
  informational only: the final label, its probability and the averages are the same
  whether or not the threshold is met, and the threshold never blocks the response.

  Whenever no request of the run is rejected, the answer is \<open>200\<close>; its averages of stage 2
  are those of the per-image predictions of stage 2, its final label and probability are
  what \<open>getMaxLabel\<close> gives for these averages, and the flag is the comparison of that
  probability with \<open>0.95\<close>: nothing but the flag depends on the threshold.
\<close>

theorem classify_confidence_flag:
  assumes "body_imageUrls body = Some (JArr imageUrls)" "imageUrls \<noteq> []"
      and "load_config env = Some cfg"
      and "\<forall>n<length (requests (snd (classify env axios body))). \<forall>e.
             outcome axios (snd (classify env axios body)) n \<noteq> Inl e"
  shows "\<exists>r. fst (classify env axios body) = (200, ResultBody r)
           \<and> s2_averages (stage2 r) = averageByTag (s2_perImage (stage2 r))
           \<and> finalLabel (stage2 r) = label (getMaxLabel (s2_averages (stage2 r)))
           \<and> finalLabelProbability (stage2 r)
               = probability_of (getMaxLabel (s2_averages (stage2 r)))
           \<and> highConfidence (stage2 r) = (0.95 \<le> finalLabelProbability (stage2 r))
           \<and> confidenceThreshold (stage2 r) = 0.95"
proof -
  from classify_all_fulfilled [OF assms]
  obtain s1 s2 where "fst (classify env axios body) = (200, ResultBody (result_of imageUrls s1 s2))"
    by blast
  then show ?thesis
    by (simp add: result_of_def)
qed

theorem classify_confidence_flag_witness:
  "\<exists>r. fst (classify example_env remote_tie example_body) = (200, ResultBody r)
      \<and> s2_averages (stage2 r) = [(''Tank'', Num 0.95)]
      \<and> finalLabel (stage2 r) = Some ''Tank''
      \<and> finalLabelProbability (stage2 r) = 0.95
      \<and> highConfidence (stage2 r)
      \<and> confidenceThreshold (stage2 r) = 0.95"
proof -
  from classify_confidence_flag [OF example_valid load_example_config tie_outcomes]
  obtain r where r: "fst (classify example_env remote_tie example_body) = (200, ResultBody r)"
    "s2_averages (stage2 r) = averageByTag (s2_perImage (stage2 r))"
    "finalLabel (stage2 r) = label (getMaxLabel (s2_averages (stage2 r)))"
    "finalLabelProbability (stage2 r) = probability_of (getMaxLabel (s2_averages (stage2 r)))"
    "highConfidence (stage2 r) = (0.95 \<le> finalLabelProbability (stage2 r))"
    "confidenceThreshold (stage2 r) = 0.95"
    by blast
  from r(1) have "r = result_of example_urls tie_stage1PerImage tie_stage2PerImage"
    by (simp add: tie_run)
  then have "s2_perImage (stage2 r) = tie_stage2PerImage"
    by (simp add: result_of_def)
  then have a: "s2_averages (stage2 r) = [(''Tank'', Num 0.95)]"
    by (simp add: r(2) tie_stage2_averages)
  have "getMaxLabel [(''Tank'', Num 0.95)] = \<lparr>label = Some ''Tank'', probability_of = 0.95\<rparr>"
    by (simp add: getMaxLabel_def better_def Object_entries_def array_index_def digit_of_def)
  with r a show ?thesis
    by (intro exI [of _ r]) simp
qed


text \<open>
  Claim C10: if stage 2 completes but the stage-2 prediction list of every image is
  empty, \<^verbatim>\<open>/classify\<close> still answers \<open>200\<close>, with \<^verbatim>\<open>finalLabel\<close> null,
  \<^verbatim>\<open>finalLabelProbability\<close> \<open>-1\<close> and \<^verbatim>\<open>highConfidence\<close> false.

  The requests of stage 2 are those numbered from the number of images on; each of their
  responses has no predictions list or an empty one.
\<close>

theorem classify_no_predictions:
  assumes "body_imageUrls body = Some (JArr imageUrls)" "imageUrls \<noteq> []"
      and "load_config env = Some cfg"
      and "\<forall>n<length (requests (snd (classify env axios body))). \<forall>e.
             outcome axios (snd (classify env axios body)) n \<noteq> Inl e"
      and "\<forall>n<length (requests (snd (classify env axios body))). \<forall>resp.
             length imageUrls \<le> n
             \<and> outcome axios (snd (classify env axios body)) n = Inr resp
             \<longrightarrow> resp_predictions resp = None \<or> resp_predictions resp = Some []"
  shows "\<exists>r. fst (classify env axios body) = (200, ResultBody r)
           \<and> s2_averages (stage2 r) = []
           \<and> finalLabel (stage2 r) = None
           \<and> finalLabelProbability (stage2 r) = - 1
           \<and> \<not> highConfidence (stage2 r)"
proof -
  let ?tr = "snd (classify env axios body)"
  from classify_all_fulfilled [OF assms(1-4)]
  obtain s1 s2 where run:
    "\<forall>i<length imageUrls.
       \<not> isl (snd (axios (length imageUrls + i) (stage2_url cfg s1) (stage2_key cfg s1)
                      (imageUrls ! i)))"
    "fst (batchPredict axios (length imageUrls) imageUrls (stage2_url cfg s1) (stage2_key cfg s1))
       = Inr s2"
    "requests ?tr
       = map (\<lambda>u. (modelNotModelUrl cfg, modelNotModelKey cfg, u)) imageUrls
         @ map (\<lambda>u. (stage2_url cfg s1, stage2_key cfg s1, u)) imageUrls"
    "fst (classify env axios body) = (200, ResultBody (result_of imageUrls s1 s2))"
    by blast
  note nth = batchPredict_nth [OF run(1,2)]
  have "predictions (s2 ! i) = []" if i: "i < length imageUrls" for i
  proof -
    from nth(2) [OF i] obtain t resp
      where r: "axios (length imageUrls + i) (stage2_url cfg s1) (stage2_key cfg s1)
                  (imageUrls ! i) = (t, Inr resp)"
        "s2 ! i = \<lparr>imageUrl = imageUrls ! i,
                   predictions = (case resp_predictions resp of None \<Rightarrow> [] | Some ps \<Rightarrow> ps)\<rparr>"
      by blast
    have "outcome axios ?tr (length imageUrls + i) = Inr resp"
      using outcome_stage2 [OF run(3) i, of axios] r(1) by simp
    moreover have "length imageUrls + i < length (requests ?tr)"
      using i run(3) by simp
    ultimately have "resp_predictions resp = None \<or> resp_predictions resp = Some []"
      using assms(5) by (metis le_add1)
    then show ?thesis
      using r(2) by auto
  qed
  then have "\<forall>img\<in>set s2. predictions img = []"
    using nth(1) by (metis in_set_conv_nth)
  then have "averageByTag s2 = []"
    by (rule averageByTag_no_predictions)
  then show ?thesis
    by (simp add: run(4) result_of_def getMaxLabel_def Object_entries_Nil)
qed

theorem classify_no_predictions_witness:
  "\<exists>r. fst (classify example_env remote_silent example_body) = (200, ResultBody r)
      \<and> branch (stage2 r) = ''CivilianHybrid''
      \<and> s2_perImage (stage2 r) = silent_stage2PerImage
      \<and> s2_averages (stage2 r) = []
      \<and> finalLabel (stage2 r) = None
      \<and> finalLabelProbability (stage2 r) = - 1
      \<and> \<not> highConfidence (stage2 r)"
proof -
  let ?tr = "snd (classify example_env remote_silent example_body)"
  have h4: "\<forall>n<length (requests ?tr). \<forall>e. outcome remote_silent ?tr n \<noteq> Inl e"
    by (simp add: silent_requests outcome_def remote_silent_def answer_def less_Suc_eq
          eval_nat_numeral)
  have h5: "\<forall>n<length (requests ?tr). \<forall>resp.
              length example_urls \<le> n \<and> outcome remote_silent ?tr n = Inr resp
              \<longrightarrow> resp_predictions resp = None \<or> resp_predictions resp = Some []"
    by (auto simp: silent_requests outcome_def remote_silent_def answer_def less_Suc_eq
          eval_nat_numeral example_urls_def)
  from classify_no_predictions [OF example_valid load_example_config h4 h5]
  obtain r where r: "fst (classify example_env remote_silent example_body) = (200, ResultBody r)"
    "s2_averages (stage2 r) = []" "finalLabel (stage2 r) = None"
    "finalLabelProbability (stage2 r) = - 1" "\<not> highConfidence (stage2 r)"
    by blast
  from r(1) have "r = result_of example_urls silent_stage1PerImage silent_stage2PerImage"
    by (simp add: silent_run)
  then have "branch (stage2 r) = ''CivilianHybrid''"
    "s2_perImage (stage2 r) = silent_stage2PerImage"
    by (simp_all add: result_of_def silent_says_not_model)
  with r show ?thesis
    by blast
qed


end
